theory Spec2Isabelle
  imports Main
begin

section \<open>Exceptions\<close>

text \<open>
  The notebook is Python.  Every exception the script can raise is a value; a computation
  that may raise returns \<open>exn + 'a\<close>, with \<open>Inl\<close> the exception.  \<open>External\<close> stands
  for an exception raised inside a call of a third-party library (Keras, AllenNLP, the
  operating system).
\<close>

datatype exn =
    KeyError string
  | IndexError
  | ValueError
  | ZeroDivisionError
  | External string

text \<open>Sequencing of two computations; the script has no \<open>try\<close>, so this is the only way
  two statements are combined.\<close>

definition bind :: "exn + 'a \<Rightarrow> ('a \<Rightarrow> exn + 'b) \<Rightarrow> exn + 'b" where
  "bind m f = (case m of Inl e \<Rightarrow> Inl e | Inr x \<Rightarrow> f x)"

section \<open>The arrays of the numeric library\<close>

text \<open>
  An array is its shape and its entries in row-major order.  The entry type \<open>'a\<close> stands
  for the 32-bit floating point values of the embeddings; only its zero is used.  The
  conversion \<open>dtype=np.float32\<close> leaves such values as they are.
\<close>

record 'a ndarray =
  shape :: "nat list"
  entries :: "'a list"

definition wf_ndarray :: "'a ndarray \<Rightarrow> bool" where
  "wf_ndarray a \<longleftrightarrow> length (entries a) = prod_list (shape a)"

text \<open>\<open>t[i]\<close> on the shape tuple: IndexError when the tuple is too short.\<close>

definition shape_at :: "'a ndarray \<Rightarrow> nat \<Rightarrow> exn + nat" where
  "shape_at a i = (if i < length (shape a) then Inr (shape a ! i) else Inl IndexError)"

text \<open>\<open>np.zeros((p, c))\<close>.\<close>

definition np_zeros :: "nat \<Rightarrow> nat \<Rightarrow> ('a::zero) ndarray" where
  "np_zeros p c = \<lparr>shape = [p, c], entries = replicate (p * c) 0\<rparr>"

text \<open>\<open>np.append(a, b, axis=0)\<close>: both arrays need the same number of dimensions (at least
  one) and the same shape after the first axis; otherwise ValueError.\<close>

definition np_append :: "'a ndarray \<Rightarrow> 'a ndarray \<Rightarrow> exn + 'a ndarray" where
  "np_append a b =
     (case (shape a, shape b) of
        (n # sa, m # sb) \<Rightarrow>
          if sa = sb then Inr \<lparr>shape = (n + m) # sa, entries = entries a @ entries b\<rparr>
          else Inl ValueError
      | _ \<Rightarrow> Inl ValueError)"

text \<open>\<open>np.array(xs, dtype=np.float32)\<close> on a list of arrays: arrays of one shape are
  stacked along a new first axis; arrays of different shapes cannot be converted to a
  numeric array (ValueError); the empty list gives the array of shape \<open>(0,)\<close>.\<close>

definition np_array :: "'a ndarray list \<Rightarrow> exn + 'a ndarray" where
  "np_array xs =
     (case xs of
        [] \<Rightarrow> Inr \<lparr>shape = [0], entries = []\<rparr>
      | a # as \<Rightarrow>
          if list_all (\<lambda>b. shape b = shape a) as
          then Inr \<lparr>shape = length xs # shape a, entries = concat (map entries xs)\<rparr>
          else Inl ValueError)"

section \<open>Padding\<close>

definition max_tokens :: int where
  "max_tokens = 100"

text \<open>
  The body of the loop of \<open>pad_x_matrix\<close> for one element \<open>sent\<close> of \<open>x_matrix\<close>; the
  result is the new value of \<open>x_matrix[sentenceIdx]\<close>.  The elements of \<open>x_matrix\<close> are
  arrays (the script puts the results of \<open>np.average\<close> there), and
  \<open>np.array(sent, dtype=np.float32)\<close> of an array has the shape and the entries of the
  array.
\<close>

definition pad_sentence :: "('a::zero) ndarray \<Rightarrow> exn + 'a ndarray" where
  "pad_sentence sent =
     (let sentence_vec = sent in
      bind (shape_at sentence_vec 0) (\<lambda>rows.
        let padding_length = max_tokens - int rows in
        if padding_length > 0 then
          bind (shape_at sentence_vec 1) (\<lambda>cols.
            np_append sent (np_zeros (nat padding_length) cols))
        else Inr sent))"

text \<open>The loop over \<open>range(len(x_matrix))\<close>, which replaces the elements in turn.\<close>

fun pad_x_matrix_loop :: "('a::zero) ndarray list \<Rightarrow> exn + 'a ndarray list" where
  "pad_x_matrix_loop [] = Inr []"
| "pad_x_matrix_loop (sent # rest) =
     bind (pad_sentence sent) (\<lambda>padded.
       bind (pad_x_matrix_loop rest) (\<lambda>rest'. Inr (padded # rest')))"

definition pad_x_matrix :: "('a::zero) ndarray list \<Rightarrow> exn + 'a ndarray" where
  "pad_x_matrix x_matrix = bind (pad_x_matrix_loop x_matrix) np_array"

section \<open>Documents\<close>

text \<open>
  A document is a Python dictionary.  The values the script stores in it are strings
  (the text), integers (the label) and lists of strings (the tokens).
\<close>

datatype pyval = PyStr string | PyInt int | PyList "string list"

type_synonym document = "string \<rightharpoonup> pyval"

text \<open>\<open>xs[0:k]\<close>: a negative \<open>k\<close> counts from the end.\<close>

definition py_slice_to :: "'a list \<Rightarrow> int \<Rightarrow> 'a list" where
  "py_slice_to xs k = (if 0 \<le> k then take (nat k) xs else take (nat (int (length xs) + k)) xs)"

text \<open>\<open>s.replace(old, new)\<close>: the occurrences of \<open>old\<close> are replaced from left to right,
  without overlap; an empty \<open>old\<close> matches before every character and at the end.\<close>

function py_replace_from :: "string \<Rightarrow> string \<Rightarrow> string \<Rightarrow> string" where
  "py_replace_from [] old new = []"
| "py_replace_from (c # cs) old new =
     (if old \<noteq> [] \<and> take (length old) (c # cs) = old
      then new @ py_replace_from (drop (length old) (c # cs)) old new
      else c # py_replace_from cs old new)"
  by pat_completeness auto
termination
  by (relation "measure (\<lambda>(s, old, new). length s)") auto

definition py_replace :: "string \<Rightarrow> string \<Rightarrow> string \<Rightarrow> string" where
  "py_replace s old new =
     (if old = [] then new @ concat (map (\<lambda>c. c # new) s) else py_replace_from s old new)"

section \<open>The model of the classifier\<close>

datatype layer =
    Conv1D nat nat string
  | GlobalMaxPooling1D
  | Dense nat string

record keras_model =
  layers :: "layer list"
  compiled :: "(string \<times> string \<times> string list) option"

definition Sequential :: keras_model where
  "Sequential = \<lparr>layers = [], compiled = None\<rparr>"

definition add :: "keras_model \<Rightarrow> layer \<Rightarrow> keras_model" where
  "add m l = m\<lparr>layers := layers m @ [l]\<rparr>"

definition compile :: "keras_model \<Rightarrow> string \<Rightarrow> string \<Rightarrow> string list \<Rightarrow> keras_model" where
  "compile m loss optimizer metrics = m\<lparr>compiled := Some (loss, optimizer, metrics)\<rparr>"

text \<open>The value of the variable \<open>model\<close> when \<open>model.fit\<close> is called: \<open>Sequential()\<close>, the
  calls of \<open>model.add\<close> in their order, and \<open>model.compile\<close>.\<close>

definition model :: keras_model where
  "model =
     (let model = Sequential;
          model = add model (Conv1D 250 3 ''same'');
          model = add model GlobalMaxPooling1D;
          model = add model (Dense 250 ''relu'');
          model = add model (Dense 1 ''sigmoid'')
      in compile model ''binary_crossentropy'' ''adam'' [''accuracy''])"

text \<open>The arguments of one call of \<open>model.fit\<close>.\<close>

record ('a, 'y) fit_call =
  fit_model :: keras_model
  fit_x :: "'a ndarray"
  fit_y :: 'y
  validation_data :: "'a ndarray \<times> 'y"
  epochs :: int
  batch_size :: int

section \<open>The world outside the script\<close>

text \<open>
  The calls into third-party libraries and the operating system are parameters of the
  model.  Each returns its result or the exception it raises.
  \<^item> \<open>keras_get_file fname origin extract\<close> is \<open>keras.utils.get_file\<close>; the file system the
    other operations read is the one after the download.
  \<^item> \<open>os_path_join a b\<close> is \<open>os.path.join(a, b)\<close>; \<open>os.path.join(a, b, c)\<close> is
    \<open>os.path.join(os.path.join(a, b), c)\<close>.
  \<^item> \<open>read_text path\<close> is \<open>open(path, "r")\<close> followed by \<open>f.read()\<close>.
  \<^item> \<open>random_shuffle k xs\<close> is the list after the \<open>k\<close>-th call of \<open>random.shuffle\<close>.
  \<^item> \<open>text_to_word_sequence text lower\<close> is the tokenizer of Keras.
  \<^item> \<open>ElmoEmbedder cuda_device\<close> builds the embedder, of type \<open>'m\<close>.
  \<^item> \<open>embed_sentences elmo tokens\<close> is the generator returned by \<open>elmo.embed_sentences\<close>:
    the values it yields and, if it ends by raising, the exception.
  \<^item> \<open>np_average a\<close> is \<open>np.average(a, axis=0)\<close>.
  \<^item> \<open>np_array_labels ys\<close> is \<open>np.array(ys)\<close> on the list of labels, of type \<open>'y\<close>.
  \<^item> \<open>train_epoch call k\<close> is pass number \<open>k\<close> of Keras over the training data of a call
    of \<open>model.fit\<close>, with the record of type \<open>'l\<close> it adds to the training history.
  Output to the notebook (\<open>print\<close>, the progress bar, \<open>model.summary()\<close>) is not modelled.
\<close>

record ('a, 'm, 'y, 'l) world =
  keras_get_file :: "string \<Rightarrow> string \<Rightarrow> bool \<Rightarrow> exn + string"
  os_path_join :: "string \<Rightarrow> string \<Rightarrow> string"
  os_path_dirname :: "string \<Rightarrow> string"
  os_listdir :: "string \<Rightarrow> exn + string list"
  read_text :: "string \<Rightarrow> exn + string"
  random_shuffle :: "nat \<Rightarrow> document list \<Rightarrow> document list"
  text_to_word_sequence :: "pyval \<Rightarrow> bool \<Rightarrow> exn + string list"
  ElmoEmbedder :: "int \<Rightarrow> exn + 'm"
  embed_sentences :: "'m \<Rightarrow> pyval list \<Rightarrow> 'a ndarray list \<times> exn option"
  np_average :: "'a ndarray \<Rightarrow> exn + 'a ndarray"
  np_array_labels :: "pyval list \<Rightarrow> exn + 'y"
  train_epoch :: "('a, 'y) fit_call \<Rightarrow> nat \<Rightarrow> exn + 'l"

section \<open>Loading the dataset\<close>

text \<open>The loop of \<open>load_directory_data\<close> over the file names, with the list \<open>data\<close> built
  so far.\<close>

fun load_directory_data_loop ::
  "('a, 'm, 'y, 'l) world \<Rightarrow> string \<Rightarrow> pyval \<Rightarrow> string list \<Rightarrow> document list
     \<Rightarrow> exn + document list" where
  "load_directory_data_loop w directory label [] data = Inr data"
| "load_directory_data_loop w directory label (file_path # rest) data =
     bind (read_text w (os_path_join w directory file_path)) (\<lambda>contents.
       load_directory_data_loop w directory label rest
         (data @ [[''text'' \<mapsto> PyStr (py_replace contents ''<br />'' '' ''),
                   ''label'' \<mapsto> label]]))"

definition load_directory_data ::
  "('a, 'm, 'y, 'l) world \<Rightarrow> string \<Rightarrow> pyval \<Rightarrow> exn + document list" where
  "load_directory_data w directory label =
     bind (os_listdir w directory) (\<lambda>files.
       load_directory_data_loop w directory label files [])"

definition load_dataset :: "('a, 'm, 'y, 'l) world \<Rightarrow> string \<Rightarrow> exn + document list" where
  "load_dataset w directory =
     bind (load_directory_data w (os_path_join w directory ''pos'') (PyInt 1)) (\<lambda>pos_data.
     bind (load_directory_data w (os_path_join w directory ''neg'') (PyInt 0)) (\<lambda>neg_data.
       Inr (pos_data @ neg_data)))"

definition download_and_load_datasets ::
  "('a, 'm, 'y, 'l) world \<Rightarrow> bool \<Rightarrow> exn + document list \<times> document list" where
  "download_and_load_datasets w force_download =
     bind (keras_get_file w ''aclImdb.tar.gz''
             ''http://ai.stanford.edu/~amaas/data/sentiment/aclImdb_v1.tar.gz'' True)
       (\<lambda>dataset.
     bind (load_dataset w
             (os_path_join w (os_path_join w (os_path_dirname w dataset) ''aclImdb'') ''train''))
       (\<lambda>train_data.
     bind (load_dataset w
             (os_path_join w (os_path_join w (os_path_dirname w dataset) ''aclImdb'') ''test''))
       (\<lambda>test_data.
       Inr (train_data, test_data))))"

text \<open>The directories that \<open>download_and_load_datasets\<close> has \<open>load_directory_data\<close> read,
  in the order of the calls, each with the label of the call: \<open>pos\<close> and \<open>neg\<close> of the
  training set, then \<open>pos\<close> and \<open>neg\<close> of the test set.\<close>

definition dataset_directories ::
  "('a, 'm, 'y, 'l) world \<Rightarrow> string \<Rightarrow> (string \<times> pyval) list" where
  "dataset_directories w dataset =
     (let root = os_path_join w (os_path_dirname w dataset) ''aclImdb'';
          train = os_path_join w root ''train'';
          test = os_path_join w root ''test''
      in [(os_path_join w train ''pos'', PyInt 1), (os_path_join w train ''neg'', PyInt 0),
          (os_path_join w test ''pos'', PyInt 1), (os_path_join w test ''neg'', PyInt 0)])"

section \<open>Tokenization\<close>

text \<open>The body of the loop of \<open>tokenize_text\<close>: the two assignments to
  \<open>document['tokens']\<close>, the second of which slices the list the first has stored.  The
  dictionary is changed in place; the model returns it.\<close>

definition tokenize_document ::
  "('a, 'm, 'y, 'l) world \<Rightarrow> document \<Rightarrow> int \<Rightarrow> exn + document" where
  "tokenize_document w document max_tokens' =
     (case document ''text'' of
        None \<Rightarrow> Inl (KeyError ''text'')
      | Some text \<Rightarrow>
          bind (text_to_word_sequence w text False) (\<lambda>toks.
            let document = document(''tokens'' \<mapsto> PyList toks);
                document = document(''tokens'' \<mapsto> PyList (py_slice_to toks max_tokens'))
            in Inr document))"

fun tokenize_text ::
  "('a, 'm, 'y, 'l) world \<Rightarrow> document list \<Rightarrow> int \<Rightarrow> exn + document list" where
  "tokenize_text w [] max_tokens' = Inr []"
| "tokenize_text w (document # rest) max_tokens' =
     bind (tokenize_document w document max_tokens') (\<lambda>document'.
     bind (tokenize_text w rest max_tokens') (\<lambda>rest'.
       Inr (document' # rest')))"

section \<open>Looking the embeddings up\<close>

text \<open>\<open>[document['tokens'] for document in documents]\<close>.\<close>

fun collect_tokens :: "document list \<Rightarrow> exn + pyval list" where
  "collect_tokens [] = Inr []"
| "collect_tokens (document # rest) =
     (case document ''tokens'' of
        None \<Rightarrow> Inl (KeyError ''tokens'')
      | Some t \<Rightarrow> bind (collect_tokens rest) (\<lambda>ts. Inr (t # ts)))"

text \<open>
  The loop of \<open>create_elmo_embeddings\<close> over the values the generator yields: \<open>yielded\<close>
  are the values not yet consumed, \<open>at_end\<close> the exception the generator raises after
  them, if any.  The division in the progress computation is by \<open>num_sentences\<close>.
\<close>

fun create_elmo_embeddings_loop ::
  "('a, 'm, 'y, 'l) world \<Rightarrow> document list \<Rightarrow> int \<Rightarrow> int
     \<Rightarrow> 'a ndarray list \<Rightarrow> exn option \<Rightarrow> nat \<Rightarrow> 'a ndarray list \<Rightarrow> pyval list
     \<Rightarrow> exn + 'a ndarray list \<times> pyval list" where
  "create_elmo_embeddings_loop w documents max_sentences num_sentences
       [] at_end documentIdx embeddings labels =
     (case at_end of None \<Rightarrow> Inr (embeddings, labels) | Some e \<Rightarrow> Inl e)"
| "create_elmo_embeddings_loop w documents max_sentences num_sentences
       (elmo_embedding # yielded) at_end documentIdx embeddings labels =
     (if documentIdx \<ge> length documents then Inl IndexError
      else
        let document = documents ! documentIdx in
        bind (np_average w elmo_embedding) (\<lambda>avg_elmo_embedding.
          let embeddings = embeddings @ [avg_elmo_embedding] in
          (case document ''label'' of
             None \<Rightarrow> Inl (KeyError ''label'')
           | Some label \<Rightarrow>
               let labels = labels @ [label];
                   documentIdx = documentIdx + 1
               in
                 if num_sentences = 0 then Inl ZeroDivisionError
                 else if max_sentences > 0 \<and> int documentIdx \<ge> max_sentences
                 then Inr (embeddings, labels)
                 else create_elmo_embeddings_loop w documents max_sentences num_sentences
                        yielded at_end documentIdx embeddings labels)))"

definition create_elmo_embeddings ::
  "('a, 'm, 'y, 'l) world \<Rightarrow> 'm \<Rightarrow> document list \<Rightarrow> int
     \<Rightarrow> exn + 'a ndarray list \<times> pyval list" where
  "create_elmo_embeddings w elmo documents max_sentences =
     (let num_sentences =
            (if max_sentences > 0 then min max_sentences (int (length documents))
             else int (length documents))
      in
        bind (collect_tokens documents) (\<lambda>tokens.
          case embed_sentences w elmo tokens of
            (yielded, at_end) \<Rightarrow>
              create_elmo_embeddings_loop w documents max_sentences num_sentences
                yielded at_end 0 [] []))"

section \<open>Training\<close>

text \<open>
  \<open>model.fit\<close> without callbacks runs the passes \<open>0, \<dots>, epochs - 1\<close> in this order and
  returns the history, one record for each pass.
\<close>

fun fit_loop ::
  "('a, 'm, 'y, 'l) world \<Rightarrow> ('a, 'y) fit_call \<Rightarrow> nat list \<Rightarrow> exn + 'l list" where
  "fit_loop w call [] = Inr []"
| "fit_loop w call (epoch # rest) =
     bind (train_epoch w call epoch) (\<lambda>logs.
     bind (fit_loop w call rest) (\<lambda>history. Inr (logs # history)))"

definition fit ::
  "('a, 'm, 'y, 'l) world \<Rightarrow> keras_model \<Rightarrow> 'a ndarray \<Rightarrow> 'y \<Rightarrow> 'a ndarray \<times> 'y
     \<Rightarrow> int \<Rightarrow> int \<Rightarrow> exn + 'l list" where
  "fit w m x y validation epochs' batch_size' =
     (let call = \<lparr>fit_model = m, fit_x = x, fit_y = y, validation_data = validation,
                  epochs = epochs', batch_size = batch_size'\<rparr>
      in fit_loop w call [0..<nat (epochs call)])"

section \<open>The script\<close>

text \<open>The variables of the notebook after its last cell that hold data, and the history
  that the call of \<open>model.fit\<close> returns.\<close>

record ('a, 'y, 'l) notebook =
  train_data :: "document list"
  test_data :: "document list"
  train_x :: "'a ndarray"
  train_y :: 'y
  test_x :: "'a ndarray"
  test_y :: 'y
  history :: "'l list"

text \<open>The statements of the notebook at top level, in their order.\<close>

definition script :: "('a::zero, 'm, 'y, 'l) world \<Rightarrow> exn + ('a, 'y, 'l) notebook" where
  "script w =
     bind (download_and_load_datasets w False) (\<lambda>(train_data, test_data).
     let train_data = random_shuffle w 0 train_data;
         test_data = random_shuffle w 1 test_data
     in
     bind (tokenize_text w train_data max_tokens) (\<lambda>train_data.
     bind (tokenize_text w test_data max_tokens) (\<lambda>test_data.
     bind (ElmoEmbedder w 1) (\<lambda>elmo.
     bind (create_elmo_embeddings w elmo train_data 1000) (\<lambda>(train_x, train_y).
     bind (create_elmo_embeddings w elmo test_data 1000) (\<lambda>(test_x, test_y).
     bind (pad_x_matrix train_x) (\<lambda>train_x.
     bind (np_array_labels w train_y) (\<lambda>train_y.
     bind (pad_x_matrix test_x) (\<lambda>test_x.
     bind (np_array_labels w test_y) (\<lambda>test_y.
     bind (fit w model train_x train_y (test_x, test_y) 10 32) (\<lambda>history.
       Inr \<lparr>train_data = train_data, test_data = test_data,
            train_x = train_x, train_y = train_y, test_x = test_x, test_y = test_y,
            history = history\<rparr>)))))))))))"

section \<open>An example world\<close>

text \<open>
  A small world in which every call returns: each directory holds one file, every text
  has the two tokens \<open>good\<close> and \<open>film\<close>, every embedding has three layers of two rows
  of two entries, the average keeps the first layer, and \<open>random.shuffle\<close> reverses.
\<close>

definition world_example :: "(int, unit, pyval list, nat) world" where
  "world_example = \<lparr>
     keras_get_file = (\<lambda>fname origin extract. Inr ''/d/aclImdb.tar.gz''),
     os_path_join = (\<lambda>a b. a @ ''/'' @ b),
     os_path_dirname = (\<lambda>p. ''/d''),
     os_listdir = (\<lambda>d. Inr [''0_9.txt'']),
     read_text = (\<lambda>p. Inr ''good<br />film''),
     random_shuffle = (\<lambda>k xs. rev xs),
     text_to_word_sequence = (\<lambda>v lower. Inr [''good'', ''film'']),
     ElmoEmbedder = (\<lambda>cuda_device. Inr ()),
     embed_sentences = (\<lambda>elmo toks.
       (map (\<lambda>t. \<lparr>shape = [3, 2, 2], entries = [1, 2, 3, 4, 5, 6, 7, 8, 9, 10, 11, 12]\<rparr>) toks,
        None)),
     np_average = (\<lambda>arr. Inr \<lparr>shape = tl (shape arr), entries = take 4 (entries arr)\<rparr>),
     np_array_labels = (\<lambda>ys. Inr ys),
     train_epoch = (\<lambda>call k. Inr k)\<rparr>"

definition loaded_example :: "int \<Rightarrow> document" where
  "loaded_example l = [''text'' \<mapsto> PyStr ''good film'', ''label'' \<mapsto> PyInt l]"

definition document_example :: "int \<Rightarrow> document" where
  "document_example l = [''text'' \<mapsto> PyStr ''good film'', ''label'' \<mapsto> PyInt l,
                         ''tokens'' \<mapsto> PyList [''good'', ''film'']]"

definition padded_example :: "int ndarray" where
  "padded_example = \<lparr>shape = [2, 100, 2],
     entries = [1, 2, 3, 4] @ replicate 196 0 @ [1, 2, 3, 4] @ replicate 196 0\<rparr>"

definition notebook_example :: "(int, pyval list, nat) notebook" where
  "notebook_example =
     \<lparr>train_data = [document_example 0, document_example 1],
      test_data = [document_example 0, document_example 1],
      train_x = padded_example, train_y = [PyInt 0, PyInt 1],
      test_x = padded_example, test_y = [PyInt 0, PyInt 1],
      history = [0, 1, 2, 3, 4, 5, 6, 7, 8, 9]\<rparr>"

section \<open>Worlds in which a call raises\<close>

text \<open>
  A second world, in which the training and the test data differ: the files of the test
  set hold \<open>bad film\<close>, whose embedding has rows of three entries, \<open>random.shuffle\<close>
  reverses at its first call only, and the average keeps the first layer of an embedding
  of any shape.
\<close>

definition world_split :: "(int, unit, pyval list, nat) world" where
  "world_split = \<lparr>
     keras_get_file = (\<lambda>fname origin extract. Inr ''/d/aclImdb.tar.gz''),
     os_path_join = (\<lambda>a b. a @ ''/'' @ b),
     os_path_dirname = (\<lambda>p. ''/d''),
     os_listdir = (\<lambda>d. Inr [''0_9.txt'']),
     read_text = (\<lambda>p. if p = ''/d/aclImdb/test/pos/0_9.txt'' \<or> p = ''/d/aclImdb/test/neg/0_9.txt''
                         then Inr ''bad film'' else Inr ''good<br />film''),
     random_shuffle = (\<lambda>k xs. if k = 0 then rev xs else xs),
     text_to_word_sequence = (\<lambda>v lower. if v = PyStr ''bad film'' then Inr [''bad'', ''film'']
                                             else Inr [''good'', ''film'']),
     ElmoEmbedder = (\<lambda>cuda_device. Inr ()),
     embed_sentences = (\<lambda>elmo toks.
       (map (\<lambda>t. if t = PyList [''bad'', ''film'']
                  then \<lparr>shape = [3, 2, 3],
                        entries = [1, 2, 3, 4, 5, 6, 7, 8, 9, 10, 11, 12, 13, 14, 15, 16, 17, 18]\<rparr>
                  else \<lparr>shape = [3, 2, 2],
                        entries = [1, 2, 3, 4, 5, 6, 7, 8, 9, 10, 11, 12]\<rparr>) toks,
        None)),
     np_average = (\<lambda>arr. Inr \<lparr>shape = tl (shape arr),
                               entries = take (prod_list (tl (shape arr))) (entries arr)\<rparr>),
     np_array_labels = (\<lambda>ys. Inr ys),
     train_epoch = (\<lambda>call k. Inr k)\<rparr>"

definition loaded_bad :: "int \<Rightarrow> document" where
  "loaded_bad l = [''text'' \<mapsto> PyStr ''bad film'', ''label'' \<mapsto> PyInt l]"

definition document_bad :: "int \<Rightarrow> document" where
  "document_bad l = [''text'' \<mapsto> PyStr ''bad film'', ''label'' \<mapsto> PyInt l,
                     ''tokens'' \<mapsto> PyList [''bad'', ''film'']]"

definition embedding_good :: "int ndarray" where
  "embedding_good = \<lparr>shape = [3, 2, 2], entries = [1, 2, 3, 4, 5, 6, 7, 8, 9, 10, 11, 12]\<rparr>"

definition embedding_bad :: "int ndarray" where
  "embedding_bad = \<lparr>shape = [3, 2, 3],
     entries = [1, 2, 3, 4, 5, 6, 7, 8, 9, 10, 11, 12, 13, 14, 15, 16, 17, 18]\<rparr>"

definition average_good :: "int ndarray" where
  "average_good = \<lparr>shape = [2, 2], entries = [1, 2, 3, 4]\<rparr>"

definition average_bad :: "int ndarray" where
  "average_bad = \<lparr>shape = [2, 3], entries = [1, 2, 3, 4, 5, 6]\<rparr>"

definition flat_example :: "int ndarray" where
  "flat_example = \<lparr>shape = [4], entries = [1, 2, 3, 4]\<rparr>"

definition padded_bad :: "int ndarray" where
  "padded_bad = \<lparr>shape = [2, 100, 3],
     entries = [1, 2, 3, 4, 5, 6] @ replicate 294 0 @ [1, 2, 3, 4, 5, 6] @ replicate 294 0\<rparr>"

text \<open>
  The worlds below are this world with one call changed so that it raises, or returns
  what makes a later statement of the script raise: one world for each place of the
  script where an exception can start.
\<close>

definition world_no_download :: "(int, unit, pyval list, nat) world" where
  "world_no_download =
     world_split\<lparr>keras_get_file := (\<lambda>fname origin extract. Inl (External ''URLError''))\<rparr>"

definition world_no_listing :: "(int, unit, pyval list, nat) world" where
  "world_no_listing =
     world_split\<lparr>os_listdir := (\<lambda>d. if d = ''/d/aclImdb/train/neg''
         then Inl (External ''FileNotFoundError'') else Inr [''0_9.txt''])\<rparr>"

definition world_bad_file :: "(int, unit, pyval list, nat) world" where
  "world_bad_file =
     world_split\<lparr>os_listdir := (\<lambda>d. Inr [''0_9.txt'', ''b'']),
       read_text := (\<lambda>p. if p = ''/d/aclImdb/train/pos/b''
         then Inl (External ''UnicodeDecodeError'') else Inr ''good<br />film'')\<rparr>"

definition world_no_tokenizer_train :: "(int, unit, pyval list, nat) world" where
  "world_no_tokenizer_train =
     world_split\<lparr>text_to_word_sequence := (\<lambda>v lower. if v = PyStr ''good film''
         then Inl (External ''TypeError'') else Inr [''bad'', ''film''])\<rparr>"

definition world_no_tokenizer_test :: "(int, unit, pyval list, nat) world" where
  "world_no_tokenizer_test =
     world_split\<lparr>text_to_word_sequence := (\<lambda>v lower. if v = PyStr ''bad film''
         then Inl (External ''TypeError'') else Inr [''good'', ''film''])\<rparr>"

definition world_no_embedder :: "(int, unit, pyval list, nat) world" where
  "world_no_embedder =
     world_split\<lparr>ElmoEmbedder := (\<lambda>cuda_device. Inl (External ''RuntimeError''))\<rparr>"

definition world_bad_generator_train :: "(int, unit, pyval list, nat) world" where
  "world_bad_generator_train =
     world_split\<lparr>embed_sentences := (\<lambda>elmo toks. if toks = [PyList [''good'', ''film''], PyList [''good'', ''film'']]
         then ([embedding_good], Some (External ''CUDA''))
         else ([embedding_bad, embedding_bad], None))\<rparr>"

definition world_no_average :: "(int, unit, pyval list, nat) world" where
  "world_no_average =
     world_split\<lparr>np_average := (\<lambda>arr. if arr = embedding_good
         then Inl (External ''FloatingPointError'') else Inr average_bad)\<rparr>"

definition world_bad_generator_test :: "(int, unit, pyval list, nat) world" where
  "world_bad_generator_test =
     world_split\<lparr>embed_sentences := (\<lambda>elmo toks. if toks = [PyList [''bad'', ''film''], PyList [''bad'', ''film'']]
         then ([embedding_bad], Some (External ''CUDA''))
         else ([embedding_good, embedding_good], None))\<rparr>"

definition world_flat_average_train :: "(int, unit, pyval list, nat) world" where
  "world_flat_average_train =
     world_split\<lparr>np_average := (\<lambda>arr. if arr = embedding_good
         then Inr flat_example else Inr average_bad)\<rparr>"

definition world_ragged :: "(int, unit, pyval list, nat) world" where
  "world_ragged =
     world_split\<lparr>embed_sentences := (\<lambda>elmo toks. if toks = [PyList [''good'', ''film''], PyList [''good'', ''film'']]
         then ([embedding_good, embedding_bad], None)
         else ([embedding_bad, embedding_bad], None))\<rparr>"

definition world_no_labels_train :: "(int, unit, pyval list, nat) world" where
  "world_no_labels_train =
     world_split\<lparr>np_array_labels := (\<lambda>ys. if ys = [PyInt 0, PyInt 1]
         then Inl (External ''MemoryError'') else Inr ys)\<rparr>"

definition world_flat_average_test :: "(int, unit, pyval list, nat) world" where
  "world_flat_average_test =
     world_split\<lparr>np_average := (\<lambda>arr. if arr = embedding_bad
         then Inr flat_example else Inr average_good)\<rparr>"

definition world_no_labels_test :: "(int, unit, pyval list, nat) world" where
  "world_no_labels_test =
     world_split\<lparr>np_array_labels := (\<lambda>ys. if ys = [PyInt 1, PyInt 0]
         then Inl (External ''MemoryError'') else Inr ys)\<rparr>"

definition world_no_training :: "(int, unit, pyval list, nat) world" where
  "world_no_training =
     world_split\<lparr>train_epoch := (\<lambda>call k. if k = 3
         then Inl (External ''ResourceExhaustedError'') else Inr k)\<rparr>"




section \<open>Sequencing\<close>

lemma bind_Inr: "bind (Inr x) f = f x"
  by (simp add: bind_def)

lemma bind_Inl: "bind (Inl e) f = Inl e"
  by (simp add: bind_def)

lemma bind_assoc: "bind (bind m f) g = bind m (\<lambda>x. bind (f x) g)"
  by (cases m) (simp_all add: bind_def)

lemma bind_eq_Inr: "bind m f = Inr y \<longleftrightarrow> (\<exists>x. m = Inr x \<and> f x = Inr y)"
  by (cases m) (simp_all add: bind_def)

section \<open>The example run\<close>

lemma world_example_fields:
  "keras_get_file world_example fname origin extract = Inr ''/d/aclImdb.tar.gz''"
  "os_path_join world_example a b = a @ ''/'' @ b"
  "os_path_dirname world_example p = ''/d''"
  "os_listdir world_example d = Inr [''0_9.txt'']"
  "read_text world_example p = Inr ''good<br />film''"
  "random_shuffle world_example k xs = rev xs"
  "text_to_word_sequence world_example v lower = Inr [''good'', ''film'']"
  "ElmoEmbedder world_example c = Inr ()"
  "embed_sentences world_example elmo toks =
     (map (\<lambda>t. \<lparr>shape = [3, 2, 2], entries = [1, 2, 3, 4, 5, 6, 7, 8, 9, 10, 11, 12]\<rparr>) toks,
      None)"
  "np_average world_example arr = Inr \<lparr>shape = tl (shape arr), entries = take 4 (entries arr)\<rparr>"
  "np_array_labels world_example ys = Inr ys"
  "train_epoch world_example call n = Inr n"
  by (simp_all add: world_example_def)

lemma py_replace_example: "py_replace ''good<br />film'' ''<br />'' '' '' = ''good film''"
  by (simp add: py_replace_def)

lemma pad_example:
  "pad_x_matrix [\<lparr>shape = [2, 2], entries = [1, 2, 3, 4::int]\<rparr>,
                 \<lparr>shape = [2, 2], entries = [1, 2, 3, 4]\<rparr>] = Inr padded_example"
  by (simp add: pad_x_matrix_def pad_sentence_def shape_at_def np_append_def np_zeros_def
      np_array_def bind_Inr max_tokens_def padded_example_def)

text \<open>The calls of the script in a world that agrees with the example on what the call
  uses.\<close>

lemma download_example:
  assumes "keras_get_file w = keras_get_file world_example"
    and "os_path_join w = os_path_join world_example"
    and "os_path_dirname w = os_path_dirname world_example"
    and "os_listdir w = os_listdir world_example"
    and "read_text w = read_text world_example"
  shows "download_and_load_datasets w False =
           Inr ([loaded_example 1, loaded_example 0], [loaded_example 1, loaded_example 0])"
  by (simp add: download_and_load_datasets_def load_dataset_def load_directory_data_def
      assms world_example_fields bind_Inr py_replace_example loaded_example_def)

lemma tokenize_example:
  assumes "text_to_word_sequence w = text_to_word_sequence world_example"
  shows "tokenize_text w [loaded_example 0, loaded_example 1] max_tokens =
           Inr [document_example 0, document_example 1]"
  by (simp add: tokenize_document_def assms world_example_fields bind_Inr
      document_example_def loaded_example_def py_slice_to_def max_tokens_def)

lemma embeddings_example:
  assumes "embed_sentences w = embed_sentences world_example"
    and "np_average w = np_average world_example"
  shows "create_elmo_embeddings w elmo [document_example 0, document_example 1] 1000 =
     Inr ([\<lparr>shape = [2, 2], entries = [1, 2, 3, 4]\<rparr>, \<lparr>shape = [2, 2], entries = [1, 2, 3, 4]\<rparr>],
          [PyInt 0, PyInt 1])"
  by (simp add: create_elmo_embeddings_def assms world_example_fields bind_Inr
      document_example_def)

lemma fit_example:
  assumes "train_epoch w = train_epoch world_example"
  shows "fit w m x y v 10 32 = Inr [0, 1, 2, 3, 4, 5, 6, 7, 8, 9]"
  by (simp add: fit_def assms world_example_fields bind_Inr upt_conv_Cons)

lemma script_example: "script world_example = Inr notebook_example"
  by (simp add: script_def download_example bind_Inr world_example_fields tokenize_example
      embeddings_example pad_example fit_example notebook_example_def
      del: tokenize_text.simps)

section \<open>Properties of the padding\<close>

lemma pad_sentence_2d:
  "shape s = [n, d] \<Longrightarrow> int n \<le> max_tokens \<Longrightarrow>
   pad_sentence s =
     Inr \<lparr>shape = [nat max_tokens, d], entries = entries s @ replicate ((nat max_tokens - n) * d) 0\<rparr>"
  by (auto simp: pad_sentence_def bind_def shape_at_def np_append_def np_zeros_def
      max_tokens_def Let_def)



lemma pad_x_matrix_loop_first_failure:
  assumes "\<forall>a\<in>set pre. \<exists>p. pad_sentence a = Inr p" and "pad_sentence s = Inl e"
  shows "pad_x_matrix_loop (pre @ s # post) = Inl e"
  using assms by (induction pre) (auto simp: bind_def)

lemma pad_x_matrix_loop_uniform:
  assumes "\<forall>s\<in>set xs. \<exists>n. shape s = [n, d] \<and> int n \<le> max_tokens"
  shows "pad_x_matrix_loop xs =
         Inr (map (\<lambda>s. \<lparr>shape = [nat max_tokens, d],
                         entries = entries s @ replicate ((nat max_tokens - hd (shape s)) * d) 0\<rparr>) xs)"
  using assms
proof (induction xs)
  case Nil
  then show ?case by simp
next
  case (Cons s xs)
  then obtain n where n: "shape s = [n, d]" "int n \<le> max_tokens" by auto
  from Cons have IH: "pad_x_matrix_loop xs =
         Inr (map (\<lambda>s. \<lparr>shape = [nat max_tokens, d],
                         entries = entries s @ replicate ((nat max_tokens - hd (shape s)) * d) 0\<rparr>) xs)"
    by simp
  show ?case using pad_sentence_2d[OF n] n(1) IH by (simp add: bind_def)
qed

lemma np_array_uniform:
  assumes "xs \<noteq> []" and "\<forall>a\<in>set xs. shape a = sh"
  shows "np_array xs = Inr \<lparr>shape = length xs # sh, entries = concat (map entries xs)\<rparr>"
  using assms by (cases xs) (auto simp: np_array_def list_all_iff)

text \<open>
  C1, as amended.  For every non-empty list \<open>x_matrix\<close> of arrays of shape \<open>(n, d)\<close> with
  \<open>0 < n \<le> max_tokens\<close> and one common \<open>d\<close>, \<open>pad_x_matrix\<close> returns one array of shape
  \<open>(len(x_matrix), max_tokens, d)\<close>.  Its entries are, sequence after sequence, the
  entries of the sequence as they were, followed by the zeros of \<open>max_tokens - n\<close> rows of
  \<open>d\<close> entries; so the array has as many entries as its shape says.
\<close>

theorem pad_x_matrix_shape:
  assumes "x_matrix \<noteq> []"
    and "\<forall>s\<in>set x_matrix.
           \<exists>n. shape s = [n, d] \<and> 0 < n \<and> int n \<le> max_tokens \<and> wf_ndarray s"
  shows "\<exists>m. pad_x_matrix x_matrix = Inr m \<and>
           shape m = [length x_matrix, nat max_tokens, d] \<and>
           entries m = concat (map (\<lambda>s. entries s @
                       replicate ((nat max_tokens - hd (shape s)) * d) 0) x_matrix) \<and>
           wf_ndarray m"
proof -
  let ?pad = "\<lambda>s. \<lparr>shape = [nat max_tokens, d],
                     entries = entries s @ replicate ((nat max_tokens - hd (shape s)) * d) 0\<rparr>"
  let ?blk = "\<lambda>s. entries s @ replicate ((nat max_tokens - hd (shape s)) * d) (0::'a)"
  from assms(2) have "\<forall>s\<in>set x_matrix. \<exists>n. shape s = [n, d] \<and> int n \<le> max_tokens"
    by blast
  then have loop: "pad_x_matrix_loop x_matrix = Inr (map ?pad x_matrix)"
    by (rule pad_x_matrix_loop_uniform)
  have "np_array (map ?pad x_matrix) =
        Inr \<lparr>shape = length (map ?pad x_matrix) # [nat max_tokens, d],
             entries = concat (map entries (map ?pad x_matrix))\<rparr>"
    using assms(1) by (intro np_array_uniform) auto
  then have res: "pad_x_matrix x_matrix =
        Inr \<lparr>shape = [length x_matrix, nat max_tokens, d], entries = concat (map ?blk x_matrix)\<rparr>"
    using loop by (simp add: pad_x_matrix_def bind_def o_def)
  have len: "length (entries s) + (nat max_tokens - hd (shape s)) * d = nat max_tokens * d"
    if "s \<in> set x_matrix" for s
  proof -
    from assms(2) that obtain n where n: "shape s = [n, d]" "int n \<le> max_tokens" "wf_ndarray s"
      by blast
    then have "length (entries s) = n * d" by (simp add: wf_ndarray_def)
    moreover have "n \<le> nat max_tokens" using n(2) by simp
    ultimately show ?thesis using n(1)
      by (simp add: add_mult_distrib[symmetric])
  qed
  have "length (concat (map ?blk xs)) = length xs * (nat max_tokens * d)"
    if "set xs \<subseteq> set x_matrix" for xs
    using that by (induction xs) (simp_all add: len)
  then have "length (concat (map ?blk x_matrix)) = length x_matrix * (nat max_tokens * d)"
    by simp
  then show ?thesis using res by (simp add: wf_ndarray_def)
qed

text \<open>A one-row and a two-row sequence of dimension 2 are padded to shape \<open>(2, 100, 2)\<close>.\<close>

theorem pad_x_matrix_shape_witness:
  "[\<lparr>shape = [1, 2], entries = [5, 7::int]\<rparr>, \<lparr>shape = [2, 2], entries = [1, 2, 3, 4]\<rparr>] \<noteq> [] \<and>
   list_all (\<lambda>s. \<exists>n. shape s = [n, 2] \<and> 0 < n \<and> int n \<le> max_tokens \<and> wf_ndarray s)
     [\<lparr>shape = [1, 2], entries = [5, 7::int]\<rparr>, \<lparr>shape = [2, 2], entries = [1, 2, 3, 4]\<rparr>] \<and>
   (\<exists>m. pad_x_matrix [\<lparr>shape = [1, 2], entries = [5, 7::int]\<rparr>,
                       \<lparr>shape = [2, 2], entries = [1, 2, 3, 4]\<rparr>] = Inr m \<and>
        shape m = [2, 100, 2] \<and>
        entries m = [5, 7] @ replicate 198 0 @ [1, 2, 3, 4] @ replicate 196 0 \<and>
        wf_ndarray m)"
proof -
  let ?xs = "[\<lparr>shape = [1, 2], entries = [5, 7::int]\<rparr>, \<lparr>shape = [2, 2], entries = [1, 2, 3, 4]\<rparr>]"
  have h: "\<forall>s\<in>set ?xs. \<exists>n. shape s = [n, 2] \<and> 0 < n \<and> int n \<le> max_tokens \<and> wf_ndarray s"
    by (simp add: max_tokens_def wf_ndarray_def)
  have ne: "?xs \<noteq> []" by simp
  show ?thesis
    using h pad_x_matrix_shape[OF ne h] by (simp add: max_tokens_def numeral_2_eq_2)
qed

text \<open>
  C1 as stated fails at the empty list, which satisfies its hypothesis: the result has
  the one-component shape \<open>(0,)\<close>, not a shape \<open>(0, max_tokens, d)\<close> of three components.
\<close>

theorem pad_x_matrix_empty_list_counterexample:
  "pad_x_matrix ([] :: int ndarray list) = Inr \<lparr>shape = [0], entries = []\<rparr> \<and>
   map_sum id (length \<circ> shape) (pad_x_matrix ([] :: int ndarray list)) \<noteq> Inr 3"
  by (simp add: pad_x_matrix_def bind_def np_array_def)

section \<open>Properties of the classifier\<close>

text \<open>
  C2, as amended.  The classifier is a four-layer model: the construction stacks exactly
  four layers before compilation, a convolution, a global max pooling and two dense
  layers.
\<close>

theorem model_layers:
  "layers model = [Conv1D 250 3 ''same'', GlobalMaxPooling1D, Dense 250 ''relu'', Dense 1 ''sigmoid'']
   \<and> length (layers model) = 4"
  by (simp add: model_def Sequential_def add_def compile_def)

text \<open>C2 as stated fails: the model does not have five layers.\<close>

theorem model_five_layers_counterexample: "length (layers model) \<noteq> 5"
  by (simp add: model_def Sequential_def add_def compile_def)

section \<open>Properties of the tokenization\<close>

lemma tokenize_document_Inr:
  assumes "tokenize_document w d mt = Inr d'"
  shows "\<exists>text ws. d ''text'' = Some text \<and> text_to_word_sequence w text False = Inr ws \<and>
           d' = d(''tokens'' \<mapsto> PyList (py_slice_to ws mt))"
  using assms
  by (auto simp: tokenize_document_def bind_eq_Inr Let_def split: option.splits)

lemma tokenize_text_list_all2:
  "tokenize_text w ds mt = Inr ds' \<Longrightarrow>
   list_all2 (\<lambda>d d'. tokenize_document w d mt = Inr d') ds ds'"
proof (induction ds arbitrary: ds')
  case Nil
  then show ?case by simp
next
  case (Cons d ds)
  then show ?case by (auto simp: bind_eq_Inr)
qed

text \<open>
  C7.  For every list of documents and every \<open>max_tokens \<ge> 0\<close>, after
  \<open>tokenize_text(documents, max_tokens)\<close> has returned, each document's tokens are the
  first \<open>max_tokens\<close> words (or all of them, if there are fewer) of the word sequence of
  its text, so at most \<open>max_tokens\<close> many, and its text and label are as before.
\<close>

theorem tokenize_text_tokens:
  assumes "0 \<le> mt" and "tokenize_text w documents mt = Inr documents'"
  shows "length documents' = length documents \<and>
         (\<forall>i<length documents.
            \<exists>text ws. (documents ! i) ''text'' = Some text \<and>
              text_to_word_sequence w text False = Inr ws \<and>
              (documents' ! i) ''tokens'' = Some (PyList (take (nat mt) ws)) \<and>
              length (take (nat mt) ws) \<le> nat mt \<and>
              (documents' ! i) ''text'' = (documents ! i) ''text'' \<and>
              (documents' ! i) ''label'' = (documents ! i) ''label'')"
proof -
  from assms(2) have all2: "list_all2 (\<lambda>d d'. tokenize_document w d mt = Inr d') documents documents'"
    by (rule tokenize_text_list_all2)
  then have len: "length documents' = length documents"
    by (simp add: list_all2_lengthD)
  have "\<exists>text ws. (documents ! i) ''text'' = Some text \<and>
              text_to_word_sequence w text False = Inr ws \<and>
              (documents' ! i) ''tokens'' = Some (PyList (take (nat mt) ws)) \<and>
              length (take (nat mt) ws) \<le> nat mt \<and>
              (documents' ! i) ''text'' = (documents ! i) ''text'' \<and>
              (documents' ! i) ''label'' = (documents ! i) ''label''"
    if "i < length documents" for i
  proof -
    from all2 that have "tokenize_document w (documents ! i) mt = Inr (documents' ! i)"
      by (rule list_all2_nthD)
    from tokenize_document_Inr[OF this] obtain t ws where
      "(documents ! i) ''text'' = Some t" "text_to_word_sequence w t False = Inr ws"
      "documents' ! i = (documents ! i)(''tokens'' \<mapsto> PyList (py_slice_to ws mt))"
      by blast
    then show ?thesis using assms(1) by (auto simp: py_slice_to_def)
  qed
  with len show ?thesis by blast
qed

theorem tokenize_text_tokens_witness:
  "(0::int) \<le> 1 \<and>
   tokenize_text world_example [loaded_example 0] 1 =
     Inr [(loaded_example 0)(''tokens'' \<mapsto> PyList [''good''])] \<and>
   (\<exists>t ws. ([loaded_example 0] ! 0) ''text'' = Some t \<and>
      text_to_word_sequence world_example t False = Inr ws \<and>
      ([(loaded_example 0)(''tokens'' \<mapsto> PyList [''good''])] ! 0) ''tokens''
        = Some (PyList (take (nat 1) ws)) \<and>
      length (take (nat 1) ws) \<le> nat 1 \<and>
      ([(loaded_example 0)(''tokens'' \<mapsto> PyList [''good''])] ! 0) ''text''
        = ([loaded_example 0] ! 0) ''text'' \<and>
      ([(loaded_example 0)(''tokens'' \<mapsto> PyList [''good''])] ! 0) ''label''
        = ([loaded_example 0] ! 0) ''label'')"
proof -
  have z: "(0::int) \<le> 1" by simp
  have h: "tokenize_text world_example [loaded_example 0] 1 =
     Inr [(loaded_example 0)(''tokens'' \<mapsto> PyList [''good''])]"
    by (simp add: tokenize_document_def world_example_fields bind_Inr loaded_example_def
        py_slice_to_def)
  have i: "0 < length [loaded_example 0]" by simp
  from tokenize_text_tokens[OF z h, THEN conjunct2, rule_format, OF i] z h
  show ?thesis by blast
qed

section \<open>Properties of the embedding lookup\<close>

lemma collect_tokens_ok:
  "\<forall>d\<in>set ds. d ''tokens'' \<noteq> None \<Longrightarrow> collect_tokens ds = Inr (map (\<lambda>d. the (d ''tokens'')) ds)"
  by (induction ds) (auto simp: bind_Inr)




section \<open>Properties of the training\<close>

lemma fit_loop_list_all2:
  "fit_loop w call es = Inr h \<Longrightarrow> list_all2 (\<lambda>k l. train_epoch w call k = Inr l) es h"
  by (induction es arbitrary: h) (auto simp: bind_eq_Inr)

lemma script_Inr_fit:
  assumes "script w = Inr nb"
  shows "fit w model (train_x nb) (train_y nb) (test_x nb, test_y nb) 10 32 = Inr (history nb)"
  using assms
  by (auto simp: script_def bind_eq_Inr Let_def split_def)

text \<open>
  C4.  Whenever the script reaches its end, \<open>model.fit\<close> was called with \<open>epochs=10\<close> and
  \<open>batch_size=32\<close> and made exactly ten passes over the training data, whatever the
  data: the history has ten records, the record of pass \<open>k\<close> at position \<open>k\<close>.
\<close>

theorem script_ten_epochs:
  assumes "script w = Inr nb"
  shows "length (history nb) = 10 \<and>
         (\<forall>k<10. train_epoch w
             \<lparr>fit_model = model, fit_x = train_x nb, fit_y = train_y nb,
              validation_data = (test_x nb, test_y nb), epochs = 10, batch_size = 32\<rparr> k
           = Inr (history nb ! k))"
proof -
  let ?call = "\<lparr>fit_model = model, fit_x = train_x nb, fit_y = train_y nb,
              validation_data = (test_x nb, test_y nb), epochs = 10, batch_size = 32\<rparr>"
  from script_Inr_fit[OF assms] have "fit_loop w ?call [0..<10] = Inr (history nb)"
    by (simp add: fit_def)
  then have all2: "list_all2 (\<lambda>k l. train_epoch w ?call k = Inr l) [0..<10] (history nb)"
    by (rule fit_loop_list_all2)
  then have len: "length (history nb) = 10"
    by (auto dest: list_all2_lengthD)
  have "train_epoch w ?call k = Inr (history nb ! k)" if "k < 10" for k
  proof -
    from that have "k < length [0..<10::nat]" by simp
    from list_all2_nthD[OF all2 this] that show ?thesis by simp
  qed
  with len show ?thesis by blast
qed

theorem script_ten_epochs_witness:
  "script world_example = Inr notebook_example \<and>
   length (history notebook_example) = 10 \<and>
   train_epoch world_example
       \<lparr>fit_model = model, fit_x = train_x notebook_example, fit_y = train_y notebook_example,
        validation_data = (test_x notebook_example, test_y notebook_example),
        epochs = 10, batch_size = 32\<rparr> 9
     = Inr (history notebook_example ! 9)"
proof -
  have k: "(9::nat) < 10" by simp
  from script_ten_epochs[OF script_example, THEN conjunct1]
       script_ten_epochs[OF script_example, THEN conjunct2, rule_format, OF k]
       script_example
  show ?thesis by blast
qed

section \<open>Properties of the documents\<close>

lemma load_directory_data_loop_docs:
  "load_directory_data_loop w dir label files acc = Inr ds \<Longrightarrow>
   \<exists>new. ds = acc @ new \<and>
     (\<forall>d\<in>set new. \<exists>path raw. read_text w path = Inr raw \<and>
        d = [''text'' \<mapsto> PyStr (py_replace raw ''<br />'' '' ''), ''label'' \<mapsto> label])"
proof (induction files arbitrary: acc)
  case Nil
  then show ?case by simp
next
  case (Cons f files)
  from Cons.prems obtain raw where raw: "read_text w (os_path_join w dir f) = Inr raw"
    and rest: "load_directory_data_loop w dir label files
         (acc @ [[''text'' \<mapsto> PyStr (py_replace raw ''<br />'' '' ''), ''label'' \<mapsto> label]]) = Inr ds"
    by (auto simp: bind_eq_Inr)
  from Cons.IH[OF rest] obtain new where new: "ds = (acc @ [[''text'' \<mapsto> PyStr (py_replace raw ''<br />'' '' ''), ''label'' \<mapsto> label]]) @ new"
     "\<forall>d\<in>set new. \<exists>path raw. read_text w path = Inr raw \<and>
        d = [''text'' \<mapsto> PyStr (py_replace raw ''<br />'' '' ''), ''label'' \<mapsto> label]"
    by blast
  show ?case
  proof (intro exI conjI)
    show "ds = acc @ ([''text'' \<mapsto> PyStr (py_replace raw ''<br />'' '' ''), ''label'' \<mapsto> label] # new)"
      using new(1) by simp
    show "\<forall>d\<in>set ([''text'' \<mapsto> PyStr (py_replace raw ''<br />'' '' ''), ''label'' \<mapsto> label] # new).
       \<exists>path raw. read_text w path = Inr raw \<and>
         d = [''text'' \<mapsto> PyStr (py_replace raw ''<br />'' '' ''), ''label'' \<mapsto> label]"
      using new(2) raw by auto
  qed
qed

lemma load_directory_data_docs:
  assumes "load_directory_data w dir label = Inr ds" and "d \<in> set ds"
  shows "\<exists>path raw. read_text w path = Inr raw \<and>
        d = [''text'' \<mapsto> PyStr (py_replace raw ''<br />'' '' ''), ''label'' \<mapsto> label]"
proof -
  from assms(1) obtain files where "load_directory_data_loop w dir label files [] = Inr ds"
    by (auto simp: load_directory_data_def bind_eq_Inr)
  from load_directory_data_loop_docs[OF this] assms(2) show ?thesis by auto
qed

lemma load_dataset_docs:
  assumes "load_dataset w dir = Inr ds" and "d \<in> set ds"
  shows "\<exists>path raw l. read_text w path = Inr raw \<and> (l = 1 \<or> l = 0) \<and>
        d = [''text'' \<mapsto> PyStr (py_replace raw ''<br />'' '' ''), ''label'' \<mapsto> PyInt l]"
proof -
  from assms(1) obtain pos neg where
    pos: "load_directory_data w (os_path_join w dir ''pos'') (PyInt 1) = Inr pos" and
    neg: "load_directory_data w (os_path_join w dir ''neg'') (PyInt 0) = Inr neg" and
    ds: "ds = pos @ neg"
    by (auto simp: load_dataset_def bind_eq_Inr)
  from assms(2) ds consider "d \<in> set pos" | "d \<in> set neg" by auto
  then show ?thesis
  proof cases
    case 1
    from load_directory_data_docs[OF pos 1] show ?thesis by blast
  next
    case 2
    from load_directory_data_docs[OF neg 2] show ?thesis by blast
  qed
qed

lemma download_and_load_datasets_docs:
  assumes "download_and_load_datasets w b = Inr (tr, te)" and "d \<in> set tr \<union> set te"
  shows "\<exists>path raw l. read_text w path = Inr raw \<and> (l = 1 \<or> l = 0) \<and>
        d = [''text'' \<mapsto> PyStr (py_replace raw ''<br />'' '' ''), ''label'' \<mapsto> PyInt l]"
proof -
  from assms(1) obtain dir1 dir2 where
    "load_dataset w dir1 = Inr tr" "load_dataset w dir2 = Inr te"
    by (auto simp: download_and_load_datasets_def bind_eq_Inr)
  with assms(2) show ?thesis
    using load_dataset_docs by blast
qed

lemma tokenize_text_docs:
  assumes "tokenize_text w ds mt = Inr ds'" and "d' \<in> set ds'"
  shows "\<exists>d\<in>set ds. tokenize_document w d mt = Inr d'"
proof -
  from tokenize_text_list_all2[OF assms(1)]
  have all2: "list_all2 (\<lambda>d d'. tokenize_document w d mt = Inr d') ds ds'" .
  from assms(2) obtain i where i: "i < length ds'" "ds' ! i = d'"
    by (auto simp: in_set_conv_nth)
  from all2 have len: "length ds = length ds'" by (rule list_all2_lengthD)
  from all2 i(1) have "tokenize_document w (ds ! i) mt = Inr (ds' ! i)"
    by (rule list_all2_nthD2)
  with i len show ?thesis by (metis nth_mem)
qed

lemma script_Inr_documents:
  assumes "script w = Inr nb"
  shows "\<exists>tr te. download_and_load_datasets w False = Inr (tr, te) \<and>
           tokenize_text w (random_shuffle w 0 tr) max_tokens = Inr (train_data nb) \<and>
           tokenize_text w (random_shuffle w 1 te) max_tokens = Inr (test_data nb)"
  using assms
  by (auto simp: script_def bind_eq_Inr Let_def split_def)

text \<open>
  C5.  When the script has run and \<open>random.shuffle\<close> only rearranges, every document of
  \<open>train_data\<close> and \<open>test_data\<close> is a dictionary with exactly the keys \<open>text\<close>, \<open>label\<close> and
  \<open>tokens\<close>: the text is the contents of a file with every \<open><br />\<close> replaced by a
  space, the label is 1 or 0, and the tokens are the first \<open>max_tokens\<close> words of the
  text.  The statements after the tokenization do not write to a document.
\<close>

theorem document_keys:
  assumes "script w = Inr nb"
    and "\<forall>k xs. set (random_shuffle w k xs) = set xs"
  shows "\<forall>d \<in> set (train_data nb) \<union> set (test_data nb).
           dom d = {''text'', ''label'', ''tokens''} \<and>
           (\<exists>path raw. read_text w path = Inr raw \<and>
              d ''text'' = Some (PyStr (py_replace raw ''<br />'' '' ''))) \<and>
           (d ''label'' = Some (PyInt 1) \<or> d ''label'' = Some (PyInt 0)) \<and>
           (\<exists>ws. text_to_word_sequence w (the (d ''text'')) False = Inr ws \<and>
              d ''tokens'' = Some (PyList (take 100 ws)))"
proof
  fix d' assume d': "d' \<in> set (train_data nb) \<union> set (test_data nb)"
  from script_Inr_documents[OF assms(1)] obtain tr te where
    dl: "download_and_load_datasets w False = Inr (tr, te)" and
    ttr: "tokenize_text w (random_shuffle w 0 tr) max_tokens = Inr (train_data nb)" and
    tte: "tokenize_text w (random_shuffle w 1 te) max_tokens = Inr (test_data nb)"
    by blast
  from d' ttr tte assms(2) obtain d where d: "d \<in> set tr \<union> set te"
    and tok: "tokenize_document w d max_tokens = Inr d'"
    using tokenize_text_docs by (metis Un_iff)
  from download_and_load_datasets_docs[OF dl d] obtain path raw l where
    raw: "read_text w path = Inr raw" and l: "l = 1 \<or> l = 0" and
    deq: "d = [''text'' \<mapsto> PyStr (py_replace raw ''<br />'' '' ''), ''label'' \<mapsto> PyInt l]"
    by blast
  from tokenize_document_Inr[OF tok] obtain t ws where
    t: "d ''text'' = Some t" and ws: "text_to_word_sequence w t False = Inr ws" and
    d'eq: "d' = d(''tokens'' \<mapsto> PyList (py_slice_to ws max_tokens))"
    by blast
  have dom: "dom d' = {''text'', ''label'', ''tokens''}"
    using d'eq deq by auto
  have tx: "d' ''text'' = Some (PyStr (py_replace raw ''<br />'' '' ''))"
    using d'eq deq by simp
  have lab: "d' ''label'' = Some (PyInt l)"
    using d'eq deq by simp
  have tk: "d' ''tokens'' = Some (PyList (take 100 ws))"
    using d'eq by (simp add: py_slice_to_def max_tokens_def)
  have "text_to_word_sequence w (the (d' ''text'')) False = Inr ws"
    using tx t deq ws by simp
  with dom tx lab tk raw l
  show "dom d' = {''text'', ''label'', ''tokens''} \<and>
           (\<exists>path raw. read_text w path = Inr raw \<and>
              d' ''text'' = Some (PyStr (py_replace raw ''<br />'' '' ''))) \<and>
           (d' ''label'' = Some (PyInt 1) \<or> d' ''label'' = Some (PyInt 0)) \<and>
           (\<exists>ws. text_to_word_sequence w (the (d' ''text'')) False = Inr ws \<and>
              d' ''tokens'' = Some (PyList (take 100 ws)))"
    by blast
qed

theorem document_keys_witness:
  "script world_example = Inr notebook_example \<and>
   (\<forall>k xs. set (random_shuffle world_example k xs) = set xs) \<and>
   dom (document_example 0) = {''text'', ''label'', ''tokens''} \<and>
   (\<exists>path raw. read_text world_example path = Inr raw \<and>
      document_example 0 ''text'' = Some (PyStr (py_replace raw ''<br />'' '' ''))) \<and>
   (document_example 0 ''label'' = Some (PyInt 1) \<or>
    document_example 0 ''label'' = Some (PyInt 0)) \<and>
   (\<exists>ws. text_to_word_sequence world_example (the (document_example 0 ''text'')) False = Inr ws \<and>
      document_example 0 ''tokens'' = Some (PyList (take 100 ws)))"
proof -
  have sh: "\<forall>k xs. set (random_shuffle world_example k xs) = set xs"
    by (simp add: world_example_fields)
  have mem: "document_example 0 \<in> set (train_data notebook_example) \<union> set (test_data notebook_example)"
    by (simp add: notebook_example_def)
  from document_keys[OF script_example sh, THEN bspec, OF mem] script_example sh
  show ?thesis by blast
qed

section \<open>Exceptions of the calls\<close>

text \<open>Each function of the script returns the first exception of the calls it makes.\<close>

lemma load_directory_data_loop_raises:
  assumes "\<forall>g\<in>set pre. \<exists>c. read_text w (os_path_join w dir g) = Inr c"
    and "read_text w (os_path_join w dir f) = Inl e"
  shows "load_directory_data_loop w dir label (pre @ f # post) acc = Inl e"
  using assms by (induction pre arbitrary: acc) (auto simp: bind_Inr bind_Inl)

lemma load_directory_data_raises:
  assumes "os_listdir w dir = Inl e \<or>
     (os_listdir w dir = Inr (files @ file_path # files') \<and>
      (\<forall>g\<in>set files. \<exists>c. read_text w (os_path_join w dir g) = Inr c) \<and>
      read_text w (os_path_join w dir file_path) = Inl e)"
  shows "load_directory_data w dir label = Inl e"
  using assms
  by (auto simp: load_directory_data_def bind_Inr bind_Inl load_directory_data_loop_raises)

lemma download_and_load_datasets_raises:
  assumes "keras_get_file w ''aclImdb.tar.gz''
        ''http://ai.stanford.edu/~amaas/data/sentiment/aclImdb_v1.tar.gz'' True = Inr dataset"
    and "k < 4"
    and "\<forall>j<k. \<exists>ds. load_directory_data w (fst (dataset_directories w dataset ! j))
                        (snd (dataset_directories w dataset ! j)) = Inr ds"
    and "load_directory_data w (fst (dataset_directories w dataset ! k))
                        (snd (dataset_directories w dataset ! k)) = Inl e"
  shows "download_and_load_datasets w b = Inl e"
proof -
  from assms(2) consider "k = 0" | "k = 1" | "k = 2" | "k = 3" by linarith
  then show ?thesis
  proof cases
    case 1
    with assms(1,4) show ?thesis
      by (simp add: download_and_load_datasets_def load_dataset_def dataset_directories_def
          bind_Inr bind_Inl Let_def)
  next
    case 2
    with assms(3) obtain d0 where
      "load_directory_data w (fst (dataset_directories w dataset ! 0))
                        (snd (dataset_directories w dataset ! 0)) = Inr d0"
      by auto
    with 2 assms(1,4) show ?thesis
      by (simp add: download_and_load_datasets_def load_dataset_def dataset_directories_def
          bind_Inr bind_Inl Let_def)
  next
    case 3
    have k: "0 < k" "1 < k" using 3 by simp_all
    from assms(3) k(1) obtain d0 where
      d0: "load_directory_data w (fst (dataset_directories w dataset ! 0))
                        (snd (dataset_directories w dataset ! 0)) = Inr d0"
      by blast
    from assms(3) k(2) obtain d1 where
      d1: "load_directory_data w (fst (dataset_directories w dataset ! 1))
                        (snd (dataset_directories w dataset ! 1)) = Inr d1"
      by blast
    from 3 assms(1,4) d0 d1 show ?thesis
      by (simp add: download_and_load_datasets_def load_dataset_def dataset_directories_def
          bind_Inr bind_Inl Let_def)
  next
    case 4
    have k: "0 < k" "1 < k" "2 < k" using 4 by simp_all
    from assms(3) k(1) obtain d0 where
      d0: "load_directory_data w (fst (dataset_directories w dataset ! 0))
                        (snd (dataset_directories w dataset ! 0)) = Inr d0"
      by blast
    from assms(3) k(2) obtain d1 where
      d1: "load_directory_data w (fst (dataset_directories w dataset ! 1))
                        (snd (dataset_directories w dataset ! 1)) = Inr d1"
      by blast
    from assms(3) k(3) obtain d2 where
      d2: "load_directory_data w (fst (dataset_directories w dataset ! 2))
                        (snd (dataset_directories w dataset ! 2)) = Inr d2"
      by blast
    from 4 assms(1,4) d0 d1 d2 show ?thesis
      by (simp add: download_and_load_datasets_def load_dataset_def dataset_directories_def
          bind_Inr bind_Inl Let_def)
  qed
qed

lemma tokenize_text_raises:
  assumes "\<forall>d\<in>set pre. \<exists>d'. tokenize_document w d mt = Inr d'"
    and "tokenize_document w d mt = Inl e"
  shows "tokenize_text w (pre @ d # post) mt = Inl e"
  using assms by (induction pre) (auto simp: bind_Inr bind_Inl)

lemma tokenize_text_raises_first:
  assumes "\<exists>pre d post. docs = pre @ d # post \<and>
      (\<forall>x\<in>set pre. \<exists>x'. tokenize_document w x mt = Inr x') \<and>
      (d ''text'' = None \<and> e = KeyError ''text'' \<or>
       (\<exists>t. d ''text'' = Some t \<and> text_to_word_sequence w t False = Inl e))"
  shows "tokenize_text w docs mt = Inl e"
proof -
  from assms obtain pre d post where docs: "docs = pre @ d # post"
    and pre: "\<forall>x\<in>set pre. \<exists>x'. tokenize_document w x mt = Inr x'"
    and d: "d ''text'' = None \<and> e = KeyError ''text'' \<or>
       (\<exists>t. d ''text'' = Some t \<and> text_to_word_sequence w t False = Inl e)"
    by blast
  from d have "tokenize_document w d mt = Inl e"
    by (auto simp: tokenize_document_def bind_Inl)
  with pre docs show ?thesis by (simp add: tokenize_text_raises)
qed

lemma tokenize_text_has_tokens:
  assumes "tokenize_text w ds mt = Inr ds'" and "d' \<in> set ds'"
  shows "d' ''tokens'' \<noteq> None"
proof -
  from tokenize_text_docs[OF assms] obtain d where "tokenize_document w d mt = Inr d'" by blast
  from tokenize_document_Inr[OF this] show ?thesis by auto
qed

lemma create_elmo_embeddings_loop_fails:
  assumes "k + length pre \<le> length docs"
    and "\<forall>j<length pre. (docs ! (k + j)) ''label'' \<noteq> None"
    and "\<forall>y\<in>set pre. \<exists>v. np_average w y = Inr v"
    and "num = 0 \<longrightarrow> docs = []"
    and "ms \<le> 0 \<or> int (k + length pre) < ms"
    and "(rest = [] \<and> at_end = Some e) \<or>
         (rest \<noteq> [] \<and> k + length pre = length docs \<and> e = IndexError) \<or>
         (rest \<noteq> [] \<and> k + length pre < length docs \<and> np_average w (hd rest) = Inl e) \<or>
         (rest \<noteq> [] \<and> k + length pre < length docs \<and> (\<exists>v. np_average w (hd rest) = Inr v) \<and>
            (docs ! (k + length pre)) ''label'' = None \<and> e = KeyError ''label'')"
  shows "create_elmo_embeddings_loop w docs ms num (pre @ rest) at_end k E L = Inl e"
  using assms
proof (induction pre arbitrary: k E L)
  case Nil
  from Nil.prems(6) show ?case
    by (cases rest) (auto simp: bind_Inr bind_Inl Let_def)
next
  case (Cons y pre)
  from Cons.prems(1) have k: "k < length docs" by simp
  from Cons.prems(2) have "(docs ! (k + 0)) ''label'' \<noteq> None" by (intro Cons.prems(2)[rule_format]) simp
  then obtain l where l: "(docs ! k) ''label'' = Some l" by auto
  from Cons.prems(3) obtain v where v: "np_average w y = Inr v" by auto
  from Cons.prems(4) k have num: "num \<noteq> 0" by auto
  from Cons.prems(5) have nb: "\<not> (ms > 0 \<and> int (k + 1) \<ge> ms)" by auto
  have labs: "\<forall>j<length pre. (docs ! (Suc k + j)) ''label'' \<noteq> None"
  proof (intro allI impI)
    fix j assume "j < length pre"
    then have "Suc j < length (y # pre)" by simp
    from Cons.prems(2)[rule_format, OF this] show "(docs ! (Suc k + j)) ''label'' \<noteq> None" by simp
  qed
  have IH: "create_elmo_embeddings_loop w docs ms num (pre @ rest) at_end (Suc k)
              (E @ [v]) (L @ [l]) = Inl e"
    using Cons.prems(1,3,4,5,6) labs by (intro Cons.IH) auto
  show ?case using k l v num nb IH by (simp add: bind_Inr Let_def)
qed

lemma create_elmo_embeddings_fails:
  assumes "\<forall>d\<in>set docs. d ''tokens'' \<noteq> None"
    and "embed_sentences w elmo (map (\<lambda>d. the (d ''tokens'')) docs) = (pre @ rest, at_end)"
    and "length pre \<le> length docs"
    and "\<forall>j<length pre. (docs ! j) ''label'' \<noteq> None"
    and "\<forall>y\<in>set pre. \<exists>v. np_average w y = Inr v"
    and "ms \<le> 0 \<or> int (length pre) < ms"
    and "(rest = [] \<and> at_end = Some e) \<or>
         (rest \<noteq> [] \<and> length pre = length docs \<and> e = IndexError) \<or>
         (rest \<noteq> [] \<and> length pre < length docs \<and> np_average w (hd rest) = Inl e) \<or>
         (rest \<noteq> [] \<and> length pre < length docs \<and> (\<exists>v. np_average w (hd rest) = Inr v) \<and>
            (docs ! length pre) ''label'' = None \<and> e = KeyError ''label'')"
  shows "create_elmo_embeddings w elmo docs ms = Inl e"
proof -
  let ?num = "if ms > 0 then min ms (int (length docs)) else int (length docs)"
  have tok: "collect_tokens docs = Inr (map (\<lambda>d. the (d ''tokens'')) docs)"
    using assms(1) by (rule collect_tokens_ok)
  have num: "?num = 0 \<longrightarrow> docs = []" by (auto simp: min_def split: if_splits)
  have "create_elmo_embeddings_loop w docs ms ?num (pre @ rest) at_end 0 [] [] = Inl e"
    using assms(3,4,5,6,7) num by (intro create_elmo_embeddings_loop_fails) auto
  then show ?thesis using tok assms(2)
    by (simp add: create_elmo_embeddings_def bind_Inr Let_def)
qed

lemma pad_sentence_raises:
  assumes "shape s = [] \<and> e = IndexError \<or>
           (\<exists>n. shape s = [n] \<and> int n < max_tokens \<and> e = IndexError) \<or>
           (\<exists>n c r rs. shape s = n # c # r # rs \<and> int n < max_tokens \<and> e = ValueError)"
  shows "pad_sentence s = Inl e"
  using assms
  by (auto simp: pad_sentence_def shape_at_def np_append_def np_zeros_def bind_Inr bind_Inl Let_def)

lemma pad_x_matrix_raises:
  assumes "(\<exists>pre s post. xs = pre @ s # post \<and>
              (\<forall>a\<in>set pre. \<exists>p. pad_sentence a = Inr p) \<and>
              (shape s = [] \<and> e = IndexError \<or>
               (\<exists>n. shape s = [n] \<and> int n < max_tokens \<and> e = IndexError) \<or>
               (\<exists>n c r rs. shape s = n # c # r # rs \<and> int n < max_tokens \<and> e = ValueError))) \<or>
           (\<exists>padded. pad_x_matrix_loop xs = Inr padded \<and> np_array padded = Inl e)"
  shows "pad_x_matrix xs = Inl e"
proof -
  from assms consider
    (element) pre s post where "xs = pre @ s # post"
      "\<forall>a\<in>set pre. \<exists>p. pad_sentence a = Inr p"
      "shape s = [] \<and> e = IndexError \<or>
       (\<exists>n. shape s = [n] \<and> int n < max_tokens \<and> e = IndexError) \<or>
       (\<exists>n c r rs. shape s = n # c # r # rs \<and> int n < max_tokens \<and> e = ValueError)"
    | (stack) padded where "pad_x_matrix_loop xs = Inr padded" "np_array padded = Inl e"
    by blast
  then show ?thesis
  proof cases
    case element
    from element(3) have "pad_sentence s = Inl e" by (rule pad_sentence_raises)
    with element(2) have "pad_x_matrix_loop (pre @ s # post) = Inl e"
      by (rule pad_x_matrix_loop_first_failure)
    then show ?thesis using element(1) by (simp add: pad_x_matrix_def bind_Inl)
  next
    case stack
    then show ?thesis by (simp add: pad_x_matrix_def bind_Inr)
  qed
qed

lemma fit_loop_raises:
  assumes "\<forall>k\<in>set pre. \<exists>l. train_epoch w call k = Inr l"
    and "train_epoch w call n = Inl e"
  shows "fit_loop w call (pre @ n # post) = Inl e"
  using assms by (induction pre) (auto simp: bind_Inr bind_Inl)

lemma upt_split: "n < m \<Longrightarrow> [0..<m] = [0..<n] @ n # [Suc n..<m]"
  by (metis less_imp_le_nat upt_add_eq_append upt_conv_Cons le_add_diff_inverse plus_nat.add_0 zero_le)

lemma fit_raises:
  assumes "\<exists>n<nat ep. (\<forall>j<n. \<exists>l. train_epoch w
        \<lparr>fit_model = m, fit_x = tx, fit_y = ty, validation_data = v, epochs = ep,
         batch_size = bs\<rparr> j = Inr l) \<and>
      train_epoch w
        \<lparr>fit_model = m, fit_x = tx, fit_y = ty, validation_data = v, epochs = ep,
         batch_size = bs\<rparr> n = Inl e"
  shows "fit w m tx ty v ep bs = Inl e"
proof -
  let ?call = "\<lparr>fit_model = m, fit_x = tx, fit_y = ty, validation_data = v, epochs = ep,
         batch_size = bs\<rparr>"
  from assms obtain n where n: "n < nat ep" "\<forall>j<n. \<exists>l. train_epoch w ?call j = Inr l"
    "train_epoch w ?call n = Inl e" by blast
  from n(1) have sp: "[0..<nat ep] = [0..<n] @ n # [Suc n..<nat ep]"
    by (rule upt_split)
  have "fit_loop w ?call ([0..<n] @ n # [Suc n..<nat ep]) = Inl e"
    using n by (intro fit_loop_raises) auto
  then show ?thesis using sp by (simp add: fit_def)
qed

section \<open>The runs in which a call raises\<close>

lemma world_split_fields:
  "keras_get_file world_split fname origin extract = Inr ''/d/aclImdb.tar.gz''"
  "os_path_join world_split a b = a @ ''/'' @ b"
  "os_path_dirname world_split p = ''/d''"
  "os_listdir world_split d = Inr [''0_9.txt'']"
  "read_text world_split p =
     (if p = ''/d/aclImdb/test/pos/0_9.txt'' \<or> p = ''/d/aclImdb/test/neg/0_9.txt''
      then Inr ''bad film'' else Inr ''good<br />film'')"
  "random_shuffle world_split k xs = (if k = 0 then rev xs else xs)"
  "text_to_word_sequence world_split v lower =
     (if v = PyStr ''bad film'' then Inr [''bad'', ''film''] else Inr [''good'', ''film''])"
  "ElmoEmbedder world_split c = Inr ()"
  "embed_sentences world_split elmo toks =
     (map (\<lambda>t. if t = PyList [''bad'', ''film''] then embedding_bad else embedding_good) toks,
      None)"
  "np_average world_split arr =
     Inr \<lparr>shape = tl (shape arr), entries = take (prod_list (tl (shape arr))) (entries arr)\<rparr>"
  "np_array_labels world_split ys = Inr ys"
  "train_epoch world_split call n = Inr n"
  by (simp_all add: world_split_def embedding_bad_def embedding_good_def)

lemma download_split:
  assumes "keras_get_file w = keras_get_file world_split"
    and "os_path_join w = os_path_join world_split"
    and "os_path_dirname w = os_path_dirname world_split"
    and "os_listdir w = os_listdir world_split"
    and "read_text w = read_text world_split"
  shows "download_and_load_datasets w False =
           Inr ([loaded_example 1, loaded_example 0], [loaded_bad 1, loaded_bad 0])"
  by (simp add: download_and_load_datasets_def load_dataset_def load_directory_data_def
      assms world_split_fields bind_Inr py_replace_example loaded_example_def loaded_bad_def
      py_replace_def)

lemma tokenize_train_split:
  assumes "text_to_word_sequence w (PyStr ''good film'') False = Inr [''good'', ''film'']"
  shows "tokenize_text w [loaded_example 0, loaded_example 1] max_tokens =
           Inr [document_example 0, document_example 1]"
  by (simp add: tokenize_document_def assms bind_Inr
      document_example_def loaded_example_def py_slice_to_def max_tokens_def)

lemma tokenize_test_split:
  assumes "text_to_word_sequence w (PyStr ''bad film'') False = Inr [''bad'', ''film'']"
  shows "tokenize_text w [loaded_bad 1, loaded_bad 0] max_tokens =
           Inr [document_bad 1, document_bad 0]"
  by (simp add: tokenize_document_def assms bind_Inr
      document_bad_def loaded_bad_def py_slice_to_def max_tokens_def)

lemma embeddings_train_split:
  assumes "embed_sentences w elmo [PyList [''good'', ''film''], PyList [''good'', ''film'']] =
             ([e0, e1], None)"
    and "np_average w e0 = Inr a0"
    and "np_average w e1 = Inr a1"
  shows "create_elmo_embeddings w elmo [document_example 0, document_example 1] 1000 =
           Inr ([a0, a1], [PyInt 0, PyInt 1])"
  by (simp add: create_elmo_embeddings_def assms bind_Inr document_example_def)

lemma embeddings_test_split:
  assumes "embed_sentences w elmo [PyList [''bad'', ''film''], PyList [''bad'', ''film'']] =
             ([e0, e1], None)"
    and "np_average w e0 = Inr a0"
    and "np_average w e1 = Inr a1"
  shows "create_elmo_embeddings w elmo [document_bad 1, document_bad 0] 1000 =
           Inr ([a0, a1], [PyInt 1, PyInt 0])"
  by (simp add: create_elmo_embeddings_def assms bind_Inr document_bad_def)

lemma pad_train_split: "pad_x_matrix [average_good, average_good] = Inr padded_example"
  by (simp add: pad_x_matrix_def pad_sentence_def shape_at_def np_append_def np_zeros_def
      np_array_def bind_Inr max_tokens_def padded_example_def average_good_def)

lemma pad_test_split: "pad_x_matrix [average_bad, average_bad] = Inr padded_bad"
  by (simp add: pad_x_matrix_def pad_sentence_def shape_at_def np_append_def np_zeros_def
      np_array_def bind_Inr max_tokens_def padded_bad_def average_bad_def)

text \<open>
  C3.  No statement of the script and no function it defines catches an exception: the
  first exception that a call raises is the outcome of the whole script, which then
  returns no notebook, also not one holding the results of the calls that had returned.
  This holds at every place where an exception can start, given that the calls before
  it returned:
  \<^item> the download (\<open>get_file\<close>);
  \<^item> \<open>os.listdir\<close> on one of the four directories, or reading one of its files, after
    the directories and the files before it were read;
  \<^item> the tokenization of a training or of a test document (the tokenizer, or a missing
    key \<open>text\<close>), after the documents before it were tokenized;
  \<^item> the construction of the embedder;
  \<^item> the embedding lookup of the training or of the test documents (the generator of the
    embedder, \<open>np.average\<close>, an index past the last document, or a missing key
    \<open>label\<close>), after the embeddings before it were averaged;
  \<^item> the padding of the training or of the test embeddings (\<open>shape[0]\<close>, \<open>shape[1]\<close>,
    \<open>np.append\<close>, or the final \<open>np.array\<close> on padded sequences of different shapes);
  \<^item> \<open>np.array\<close> on the training or on the test labels;
  \<^item> a pass of the training, after the passes before it returned.
\<close>

theorem script_raises:
  "(keras_get_file w ''aclImdb.tar.gz''
        ''http://ai.stanford.edu/~amaas/data/sentiment/aclImdb_v1.tar.gz'' True = Inl e
      \<longrightarrow> script w = Inl e) \<and>
   (keras_get_file w ''aclImdb.tar.gz''
        ''http://ai.stanford.edu/~amaas/data/sentiment/aclImdb_v1.tar.gz'' True = Inr dataset \<and>
    k < 4 \<and>
    (\<forall>j<k. \<exists>ds. load_directory_data w (fst (dataset_directories w dataset ! j))
                      (snd (dataset_directories w dataset ! j)) = Inr ds) \<and>
    (os_listdir w (fst (dataset_directories w dataset ! k)) = Inl e \<or>
     (os_listdir w (fst (dataset_directories w dataset ! k)) = Inr (files @ file_path # files') \<and>
      (\<forall>g\<in>set files. \<exists>c.
          read_text w (os_path_join w (fst (dataset_directories w dataset ! k)) g) = Inr c) \<and>
      read_text w (os_path_join w (fst (dataset_directories w dataset ! k)) file_path) = Inl e))
      \<longrightarrow> script w = Inl e) \<and>
   (download_and_load_datasets w False = Inr (tr, te) \<longrightarrow>
     ((\<exists>pre d post. random_shuffle w 0 tr = pre @ d # post \<and>
         (\<forall>x\<in>set pre. \<exists>x'. tokenize_document w x max_tokens = Inr x') \<and>
         (d ''text'' = None \<and> e = KeyError ''text'' \<or>
          (\<exists>t. d ''text'' = Some t \<and> text_to_word_sequence w t False = Inl e)))
        \<longrightarrow> script w = Inl e) \<and>
     (tokenize_text w (random_shuffle w 0 tr) max_tokens = Inr train_docs \<longrightarrow>
       ((\<exists>pre d post. random_shuffle w 1 te = pre @ d # post \<and>
           (\<forall>x\<in>set pre. \<exists>x'. tokenize_document w x max_tokens = Inr x') \<and>
           (d ''text'' = None \<and> e = KeyError ''text'' \<or>
            (\<exists>t. d ''text'' = Some t \<and> text_to_word_sequence w t False = Inl e)))
          \<longrightarrow> script w = Inl e) \<and>
       (tokenize_text w (random_shuffle w 1 te) max_tokens = Inr test_docs \<longrightarrow>
         (ElmoEmbedder w 1 = Inl e \<longrightarrow> script w = Inl e) \<and>
         (ElmoEmbedder w 1 = Inr elmo \<longrightarrow>
           ((\<exists>pre rest at_end.
               embed_sentences w elmo (map (\<lambda>d. the (d ''tokens'')) train_docs)
                 = (pre @ rest, at_end) \<and>
               length pre \<le> length train_docs \<and> length pre < 1000 \<and>
               (\<forall>j<length pre. (train_docs ! j) ''label'' \<noteq> None) \<and>
               (\<forall>y\<in>set pre. \<exists>v. np_average w y = Inr v) \<and>
               (rest = [] \<and> at_end = Some e \<or>
                rest \<noteq> [] \<and> length pre = length train_docs \<and> e = IndexError \<or>
                rest \<noteq> [] \<and> length pre < length train_docs \<and>
                  np_average w (hd rest) = Inl e \<or>
                rest \<noteq> [] \<and> length pre < length train_docs \<and>
                  (\<exists>v. np_average w (hd rest) = Inr v) \<and>
                  (train_docs ! length pre) ''label'' = None \<and> e = KeyError ''label''))
              \<longrightarrow> script w = Inl e) \<and>
           (create_elmo_embeddings w elmo train_docs 1000 = Inr (train_embs, train_labels) \<longrightarrow>
             ((\<exists>pre rest at_end.
                 embed_sentences w elmo (map (\<lambda>d. the (d ''tokens'')) test_docs)
                   = (pre @ rest, at_end) \<and>
                 length pre \<le> length test_docs \<and> length pre < 1000 \<and>
                 (\<forall>j<length pre. (test_docs ! j) ''label'' \<noteq> None) \<and>
                 (\<forall>y\<in>set pre. \<exists>v. np_average w y = Inr v) \<and>
                 (rest = [] \<and> at_end = Some e \<or>
                  rest \<noteq> [] \<and> length pre = length test_docs \<and> e = IndexError \<or>
                  rest \<noteq> [] \<and> length pre < length test_docs \<and>
                    np_average w (hd rest) = Inl e \<or>
                  rest \<noteq> [] \<and> length pre < length test_docs \<and>
                    (\<exists>v. np_average w (hd rest) = Inr v) \<and>
                    (test_docs ! length pre) ''label'' = None \<and> e = KeyError ''label''))
                \<longrightarrow> script w = Inl e) \<and>
             (create_elmo_embeddings w elmo test_docs 1000 = Inr (test_embs, test_labels) \<longrightarrow>
               (((\<exists>pre s post. train_embs = pre @ s # post \<and>
                    (\<forall>a\<in>set pre. \<exists>p. pad_sentence a = Inr p) \<and>
                    (shape s = [] \<and> e = IndexError \<or>
                     (\<exists>n. shape s = [n] \<and> int n < max_tokens \<and> e = IndexError) \<or>
                     (\<exists>n c r rs. shape s = n # c # r # rs \<and> int n < max_tokens \<and>
                        e = ValueError))) \<or>
                 (\<exists>padded. pad_x_matrix_loop train_embs = Inr padded \<and>
                    np_array padded = Inl e))
                  \<longrightarrow> script w = Inl e) \<and>
               (pad_x_matrix train_embs = Inr tx \<longrightarrow>
                 (np_array_labels w train_labels = Inl e \<longrightarrow> script w = Inl e) \<and>
                 (np_array_labels w train_labels = Inr ty \<longrightarrow>
                   (((\<exists>pre s post. test_embs = pre @ s # post \<and>
                        (\<forall>a\<in>set pre. \<exists>p. pad_sentence a = Inr p) \<and>
                        (shape s = [] \<and> e = IndexError \<or>
                         (\<exists>n. shape s = [n] \<and> int n < max_tokens \<and> e = IndexError) \<or>
                         (\<exists>n c r rs. shape s = n # c # r # rs \<and> int n < max_tokens \<and>
                            e = ValueError))) \<or>
                     (\<exists>padded. pad_x_matrix_loop test_embs = Inr padded \<and>
                        np_array padded = Inl e))
                      \<longrightarrow> script w = Inl e) \<and>
                   (pad_x_matrix test_embs = Inr vx \<longrightarrow>
                     (np_array_labels w test_labels = Inl e \<longrightarrow> script w = Inl e) \<and>
                     (np_array_labels w test_labels = Inr vy \<longrightarrow>
                       ((\<exists>n<10.
                           (\<forall>j<n. \<exists>l. train_epoch w
                              \<lparr>fit_model = model, fit_x = tx, fit_y = ty,
                               validation_data = (vx, vy), epochs = 10, batch_size = 32\<rparr> j
                                = Inr l) \<and>
                           train_epoch w
                              \<lparr>fit_model = model, fit_x = tx, fit_y = ty,
                               validation_data = (vx, vy), epochs = 10, batch_size = 32\<rparr> n
                                = Inl e)
                          \<longrightarrow> script w = Inl e)))))))))))"
  apply (intro conjI impI)
  subgoal premises p
    using p by (simp add: script_def download_and_load_datasets_def bind_Inl)
  subgoal premises p
  proof -
    from p have "load_directory_data w (fst (dataset_directories w dataset ! k))
                      (snd (dataset_directories w dataset ! k)) = Inl e"
      by (intro load_directory_data_raises) blast
    with p have "download_and_load_datasets w False = Inl e"
      by (intro download_and_load_datasets_raises[where k = k and dataset = dataset]) blast+
    then show ?thesis by (simp add: script_def bind_Inl)
  qed
  subgoal premises p
    using p(1) tokenize_text_raises_first[OF p(2)]
    by (simp add: script_def bind_Inr bind_Inl)
  subgoal premises p
    using p(1,2) tokenize_text_raises_first[OF p(3)]
    by (simp add: script_def bind_Inr bind_Inl)
  subgoal premises p
    using p by (simp add: script_def bind_Inr bind_Inl)
  subgoal premises p
  proof -
    from p(5) obtain pre rest at_end where h:
      "embed_sentences w elmo (map (\<lambda>d. the (d ''tokens'')) train_docs) = (pre @ rest, at_end)"
      "length pre \<le> length train_docs" "length pre < 1000"
      "\<forall>j<length pre. (train_docs ! j) ''label'' \<noteq> None"
      "\<forall>y\<in>set pre. \<exists>v. np_average w y = Inr v"
      "rest = [] \<and> at_end = Some e \<or>
       rest \<noteq> [] \<and> length pre = length train_docs \<and> e = IndexError \<or>
       rest \<noteq> [] \<and> length pre < length train_docs \<and> np_average w (hd rest) = Inl e \<or>
       rest \<noteq> [] \<and> length pre < length train_docs \<and>
         (\<exists>v. np_average w (hd rest) = Inr v) \<and>
         (train_docs ! length pre) ''label'' = None \<and> e = KeyError ''label''"
      by blast
    have tk: "\<forall>d\<in>set train_docs. d ''tokens'' \<noteq> None"
      using tokenize_text_has_tokens[OF p(2)] by blast
    have "create_elmo_embeddings w elmo train_docs 1000 = Inl e"
      using tk h by (intro create_elmo_embeddings_fails[where pre = pre and rest = rest]) auto
    with p(1,2,3,4) show ?thesis by (simp add: script_def bind_Inr bind_Inl)
  qed
  subgoal premises p
  proof -
    from p(6) obtain pre rest at_end where h:
      "embed_sentences w elmo (map (\<lambda>d. the (d ''tokens'')) test_docs) = (pre @ rest, at_end)"
      "length pre \<le> length test_docs" "length pre < 1000"
      "\<forall>j<length pre. (test_docs ! j) ''label'' \<noteq> None"
      "\<forall>y\<in>set pre. \<exists>v. np_average w y = Inr v"
      "rest = [] \<and> at_end = Some e \<or>
       rest \<noteq> [] \<and> length pre = length test_docs \<and> e = IndexError \<or>
       rest \<noteq> [] \<and> length pre < length test_docs \<and> np_average w (hd rest) = Inl e \<or>
       rest \<noteq> [] \<and> length pre < length test_docs \<and>
         (\<exists>v. np_average w (hd rest) = Inr v) \<and>
         (test_docs ! length pre) ''label'' = None \<and> e = KeyError ''label''"
      by blast
    have tk: "\<forall>d\<in>set test_docs. d ''tokens'' \<noteq> None"
      using tokenize_text_has_tokens[OF p(3)] by blast
    have "create_elmo_embeddings w elmo test_docs 1000 = Inl e"
      using tk h by (intro create_elmo_embeddings_fails[where pre = pre and rest = rest]) auto
    with p(1,2,3,4,5) show ?thesis by (simp add: script_def bind_Inr bind_Inl)
  qed
  subgoal premises p
    using p(1-6) pad_x_matrix_raises[OF p(7)]
    by (simp add: script_def bind_Inr bind_Inl)
  subgoal premises p
    using p by (simp add: script_def bind_Inr bind_Inl)
  subgoal premises p
    using p(1-8) pad_x_matrix_raises[OF p(9)]
    by (simp add: script_def bind_Inr bind_Inl)
  subgoal premises p
    using p by (simp add: script_def bind_Inr bind_Inl)
  subgoal premises p
  proof -
    have "fit w model tx ty (vx, vy) 10 32 = Inl e"
      using p(11) by (intro fit_raises) simp
    with p(1-10) show ?thesis by (simp add: script_def bind_Inr bind_Inl)
  qed
  done

text \<open>
  In each of the fifteen worlds in which one call raises, the script ends with the
  exception of that call.
\<close>

theorem script_raises_witness:
  "script world_no_download = Inl (External ''URLError'') \<and>
   script world_no_listing = Inl (External ''FileNotFoundError'') \<and>
   script world_bad_file = Inl (External ''UnicodeDecodeError'') \<and>
   script world_no_tokenizer_train = Inl (External ''TypeError'') \<and>
   script world_no_tokenizer_test = Inl (External ''TypeError'') \<and>
   script world_no_embedder = Inl (External ''RuntimeError'') \<and>
   script world_bad_generator_train = Inl (External ''CUDA'') \<and>
   script world_no_average = Inl (External ''FloatingPointError'') \<and>
   script world_bad_generator_test = Inl (External ''CUDA'') \<and>
   script world_flat_average_train = Inl (IndexError) \<and>
   script world_ragged = Inl (ValueError) \<and>
   script world_no_labels_train = Inl (External ''MemoryError'') \<and>
   script world_flat_average_test = Inl (IndexError) \<and>
   script world_no_labels_test = Inl (External ''MemoryError'') \<and>
   script world_no_training = Inl (External ''ResourceExhaustedError'')"
proof -
  have world_no_download: "script world_no_download = Inl (External ''URLError'')"
  proof -
    have f: "keras_get_file world_no_download ''aclImdb.tar.gz''
        ''http://ai.stanford.edu/~amaas/data/sentiment/aclImdb_v1.tar.gz'' True = Inl (External ''URLError'')"
      by (simp add: world_no_download_def)
    from script_raises[where w = world_no_download and e = "External ''URLError''"
        and tr = "[loaded_example 1, loaded_example 0]" and te = "[loaded_bad 1, loaded_bad 0]"
        and train_docs = "[document_example 0, document_example 1]"
        and test_docs = "[document_bad 1, document_bad 0]" and elmo = "()"
        and train_embs = "[average_good, average_good]" and train_labels = "[PyInt 0, PyInt 1]"
        and test_embs = "[average_bad, average_bad]" and test_labels = "[PyInt 1, PyInt 0]"
        and tx = padded_example and ty = "[PyInt 0, PyInt 1]"
        and vx = padded_bad and vy = "[PyInt 1, PyInt 0]", THEN conjunct1, THEN mp, OF f] show ?thesis .
  qed
  have world_no_listing: "script world_no_listing = Inl (External ''FileNotFoundError'')"
  proof -
    have g: "keras_get_file world_no_listing ''aclImdb.tar.gz''
        ''http://ai.stanford.edu/~amaas/data/sentiment/aclImdb_v1.tar.gz'' True = Inr ''/d/aclImdb.tar.gz''"
      by (simp add: world_no_listing_def world_split_fields)
    have k: "(1::nat) < 4" by simp
    have b: "\<forall>j<1. \<exists>ds. load_directory_data world_no_listing (fst (dataset_directories world_no_listing ''/d/aclImdb.tar.gz'' ! j))
                        (snd (dataset_directories world_no_listing ''/d/aclImdb.tar.gz'' ! j)) = Inr ds"
      by (simp add: dataset_directories_def load_directory_data_def world_no_listing_def world_split_fields
          bind_Inr)
    have f: "os_listdir world_no_listing (fst (dataset_directories world_no_listing ''/d/aclImdb.tar.gz'' ! 1)) = Inl (External ''FileNotFoundError'')"
      by (simp add: dataset_directories_def world_no_listing_def world_split_fields)
    from script_raises[where w = world_no_listing and e = "External ''FileNotFoundError''"
        and tr = "[loaded_example 1, loaded_example 0]" and te = "[loaded_bad 1, loaded_bad 0]"
        and train_docs = "[document_example 0, document_example 1]"
        and test_docs = "[document_bad 1, document_bad 0]" and elmo = "()"
        and train_embs = "[average_good, average_good]" and train_labels = "[PyInt 0, PyInt 1]"
        and test_embs = "[average_bad, average_bad]" and test_labels = "[PyInt 1, PyInt 0]"
        and tx = padded_example and ty = "[PyInt 0, PyInt 1]"
        and vx = padded_bad and vy = "[PyInt 1, PyInt 0]" and dataset = "''/d/aclImdb.tar.gz''" and k = 1] g k b f
    show ?thesis by blast
  qed
  have world_bad_file: "script world_bad_file = Inl (External ''UnicodeDecodeError'')"
  proof -
    have g: "keras_get_file world_bad_file ''aclImdb.tar.gz''
        ''http://ai.stanford.edu/~amaas/data/sentiment/aclImdb_v1.tar.gz'' True = Inr ''/d/aclImdb.tar.gz''"
      by (simp add: world_bad_file_def world_split_fields)
    have k: "(0::nat) < 4" by simp
    have b: "\<forall>j<0. \<exists>ds. load_directory_data world_bad_file (fst (dataset_directories world_bad_file ''/d/aclImdb.tar.gz'' ! j))
                        (snd (dataset_directories world_bad_file ''/d/aclImdb.tar.gz'' ! j)) = Inr ds"
      by simp
    have f: "os_listdir world_bad_file (fst (dataset_directories world_bad_file ''/d/aclImdb.tar.gz'' ! 0)) = Inr ([''0_9.txt''] @ ''b'' # []) \<and>
        (\<forall>g\<in>set [''0_9.txt'']. \<exists>c.
            read_text world_bad_file (os_path_join world_bad_file (fst (dataset_directories world_bad_file ''/d/aclImdb.tar.gz'' ! 0)) g) = Inr c) \<and>
        read_text world_bad_file (os_path_join world_bad_file (fst (dataset_directories world_bad_file ''/d/aclImdb.tar.gz'' ! 0)) ''b'') = Inl (External ''UnicodeDecodeError'')"
      by (simp add: dataset_directories_def world_bad_file_def world_split_fields)
    from script_raises[where w = world_bad_file and e = "External ''UnicodeDecodeError''"
        and tr = "[loaded_example 1, loaded_example 0]" and te = "[loaded_bad 1, loaded_bad 0]"
        and train_docs = "[document_example 0, document_example 1]"
        and test_docs = "[document_bad 1, document_bad 0]" and elmo = "()"
        and train_embs = "[average_good, average_good]" and train_labels = "[PyInt 0, PyInt 1]"
        and test_embs = "[average_bad, average_bad]" and test_labels = "[PyInt 1, PyInt 0]"
        and tx = padded_example and ty = "[PyInt 0, PyInt 1]"
        and vx = padded_bad and vy = "[PyInt 1, PyInt 0]" and dataset = "''/d/aclImdb.tar.gz''" and k = 0
        and files = "[''0_9.txt'']" and file_path = "''b''" and files' = "[]"] g k b f
    show ?thesis by blast
  qed
  have world_no_tokenizer_train: "script world_no_tokenizer_train = Inl (External ''TypeError'')"
  proof -
    have c1: "download_and_load_datasets world_no_tokenizer_train False =
        Inr ([loaded_example 1, loaded_example 0], [loaded_bad 1, loaded_bad 0])"
      by (rule download_split) (simp_all add: world_no_tokenizer_train_def)
    have f: "\<exists>pre d post. random_shuffle world_no_tokenizer_train 0 [loaded_example 1, loaded_example 0] = pre @ d # post \<and>
           (\<forall>x\<in>set pre. \<exists>x'. tokenize_document world_no_tokenizer_train x max_tokens = Inr x') \<and>
           (d ''text'' = None \<and> External ''TypeError'' = KeyError ''text'' \<or>
            (\<exists>t. d ''text'' = Some t \<and> text_to_word_sequence world_no_tokenizer_train t False = Inl (External ''TypeError'')))"
      by (intro exI[of _ "[]"] exI[of _ "loaded_example 0"] exI[of _ "[loaded_example 1]"])
         (simp add: world_no_tokenizer_train_def world_split_fields loaded_example_def loaded_bad_def)
    note b0 = script_raises[where w = world_no_tokenizer_train and e = "External ''TypeError''"
        and tr = "[loaded_example 1, loaded_example 0]" and te = "[loaded_bad 1, loaded_bad 0]"
        and train_docs = "[document_example 0, document_example 1]"
        and test_docs = "[document_bad 1, document_bad 0]" and elmo = "()"
        and train_embs = "[average_good, average_good]" and train_labels = "[PyInt 0, PyInt 1]"
        and test_embs = "[average_bad, average_bad]" and test_labels = "[PyInt 1, PyInt 0]"
        and tx = padded_example and ty = "[PyInt 0, PyInt 1]"
        and vx = padded_bad and vy = "[PyInt 1, PyInt 0]", THEN conjunct2, THEN conjunct2]
    note b1 = b0[THEN mp, OF c1]
    from b1[THEN conjunct1, THEN mp, OF f] show ?thesis .
  qed
  have world_no_tokenizer_test: "script world_no_tokenizer_test = Inl (External ''TypeError'')"
  proof -
    have c1: "download_and_load_datasets world_no_tokenizer_test False =
        Inr ([loaded_example 1, loaded_example 0], [loaded_bad 1, loaded_bad 0])"
      by (rule download_split) (simp_all add: world_no_tokenizer_test_def)
    have s0: "random_shuffle world_no_tokenizer_test 0 [loaded_example 1, loaded_example 0] = [loaded_example 0, loaded_example 1]"
      and s1: "random_shuffle world_no_tokenizer_test 1 [loaded_bad 1, loaded_bad 0] = [loaded_bad 1, loaded_bad 0]"
      by (simp_all add: world_no_tokenizer_test_def world_split_fields)
    have c2: "tokenize_text world_no_tokenizer_test (random_shuffle world_no_tokenizer_test 0 [loaded_example 1, loaded_example 0]) max_tokens =
        Inr [document_example 0, document_example 1]"
      unfolding s0 by (rule tokenize_train_split) (simp add: world_no_tokenizer_test_def world_split_fields)
    have f: "\<exists>pre d post. random_shuffle world_no_tokenizer_test 1 [loaded_bad 1, loaded_bad 0] = pre @ d # post \<and>
           (\<forall>x\<in>set pre. \<exists>x'. tokenize_document world_no_tokenizer_test x max_tokens = Inr x') \<and>
           (d ''text'' = None \<and> External ''TypeError'' = KeyError ''text'' \<or>
            (\<exists>t. d ''text'' = Some t \<and> text_to_word_sequence world_no_tokenizer_test t False = Inl (External ''TypeError'')))"
      by (intro exI[of _ "[]"] exI[of _ "loaded_bad 1"] exI[of _ "[loaded_bad 0]"])
         (simp add: world_no_tokenizer_test_def world_split_fields loaded_example_def loaded_bad_def)
    note b0 = script_raises[where w = world_no_tokenizer_test and e = "External ''TypeError''"
        and tr = "[loaded_example 1, loaded_example 0]" and te = "[loaded_bad 1, loaded_bad 0]"
        and train_docs = "[document_example 0, document_example 1]"
        and test_docs = "[document_bad 1, document_bad 0]" and elmo = "()"
        and train_embs = "[average_good, average_good]" and train_labels = "[PyInt 0, PyInt 1]"
        and test_embs = "[average_bad, average_bad]" and test_labels = "[PyInt 1, PyInt 0]"
        and tx = padded_example and ty = "[PyInt 0, PyInt 1]"
        and vx = padded_bad and vy = "[PyInt 1, PyInt 0]", THEN conjunct2, THEN conjunct2]
    note b1 = b0[THEN mp, OF c1]
    note b2 = b1[THEN conjunct2, THEN mp, OF c2]
    from b2[THEN conjunct1, THEN mp, OF f] show ?thesis .
  qed
  have world_no_embedder: "script world_no_embedder = Inl (External ''RuntimeError'')"
  proof -
    have c1: "download_and_load_datasets world_no_embedder False =
        Inr ([loaded_example 1, loaded_example 0], [loaded_bad 1, loaded_bad 0])"
      by (rule download_split) (simp_all add: world_no_embedder_def)
    have s0: "random_shuffle world_no_embedder 0 [loaded_example 1, loaded_example 0] = [loaded_example 0, loaded_example 1]"
      and s1: "random_shuffle world_no_embedder 1 [loaded_bad 1, loaded_bad 0] = [loaded_bad 1, loaded_bad 0]"
      by (simp_all add: world_no_embedder_def world_split_fields)
    have c2: "tokenize_text world_no_embedder (random_shuffle world_no_embedder 0 [loaded_example 1, loaded_example 0]) max_tokens =
        Inr [document_example 0, document_example 1]"
      unfolding s0 by (rule tokenize_train_split) (simp add: world_no_embedder_def world_split_fields)
    have c3: "tokenize_text world_no_embedder (random_shuffle world_no_embedder 1 [loaded_bad 1, loaded_bad 0]) max_tokens =
        Inr [document_bad 1, document_bad 0]"
      unfolding s1 by (rule tokenize_test_split) (simp add: world_no_embedder_def world_split_fields)
    have f: "ElmoEmbedder world_no_embedder 1 = Inl (External ''RuntimeError'')"
      by (simp add: world_no_embedder_def)
    note b0 = script_raises[where w = world_no_embedder and e = "External ''RuntimeError''"
        and tr = "[loaded_example 1, loaded_example 0]" and te = "[loaded_bad 1, loaded_bad 0]"
        and train_docs = "[document_example 0, document_example 1]"
        and test_docs = "[document_bad 1, document_bad 0]" and elmo = "()"
        and train_embs = "[average_good, average_good]" and train_labels = "[PyInt 0, PyInt 1]"
        and test_embs = "[average_bad, average_bad]" and test_labels = "[PyInt 1, PyInt 0]"
        and tx = padded_example and ty = "[PyInt 0, PyInt 1]"
        and vx = padded_bad and vy = "[PyInt 1, PyInt 0]", THEN conjunct2, THEN conjunct2]
    note b1 = b0[THEN mp, OF c1]
    note b2 = b1[THEN conjunct2, THEN mp, OF c2]
    note b3 = b2[THEN conjunct2, THEN mp, OF c3]
    from b3[THEN conjunct1, THEN mp, OF f] show ?thesis .
  qed
  have world_bad_generator_train: "script world_bad_generator_train = Inl (External ''CUDA'')"
  proof -
    have c1: "download_and_load_datasets world_bad_generator_train False =
        Inr ([loaded_example 1, loaded_example 0], [loaded_bad 1, loaded_bad 0])"
      by (rule download_split) (simp_all add: world_bad_generator_train_def)
    have s0: "random_shuffle world_bad_generator_train 0 [loaded_example 1, loaded_example 0] = [loaded_example 0, loaded_example 1]"
      and s1: "random_shuffle world_bad_generator_train 1 [loaded_bad 1, loaded_bad 0] = [loaded_bad 1, loaded_bad 0]"
      by (simp_all add: world_bad_generator_train_def world_split_fields)
    have c2: "tokenize_text world_bad_generator_train (random_shuffle world_bad_generator_train 0 [loaded_example 1, loaded_example 0]) max_tokens =
        Inr [document_example 0, document_example 1]"
      unfolding s0 by (rule tokenize_train_split) (simp add: world_bad_generator_train_def world_split_fields)
    have c3: "tokenize_text world_bad_generator_train (random_shuffle world_bad_generator_train 1 [loaded_bad 1, loaded_bad 0]) max_tokens =
        Inr [document_bad 1, document_bad 0]"
      unfolding s1 by (rule tokenize_test_split) (simp add: world_bad_generator_train_def world_split_fields)
    have c4: "ElmoEmbedder world_bad_generator_train 1 = Inr ()"
      by (simp add: world_bad_generator_train_def world_split_fields)
    have f: "\<exists>pre rest at_end.
         embed_sentences world_bad_generator_train () (map (\<lambda>d. the (d ''tokens'')) [document_example 0, document_example 1])
           = (pre @ rest, at_end) \<and>
         length pre \<le> length [document_example 0, document_example 1] \<and> length pre < 1000 \<and>
         (\<forall>j<length pre. ([document_example 0, document_example 1] ! j) ''label'' \<noteq> None) \<and>
         (\<forall>y\<in>set pre. \<exists>v. np_average world_bad_generator_train y = Inr v) \<and>
         (rest = [] \<and> at_end = Some (External ''CUDA'') \<or>
          rest \<noteq> [] \<and> length pre = length [document_example 0, document_example 1] \<and> External ''CUDA'' = IndexError \<or>
          rest \<noteq> [] \<and> length pre < length [document_example 0, document_example 1] \<and>
            np_average world_bad_generator_train (hd rest) = Inl (External ''CUDA'') \<or>
          rest \<noteq> [] \<and> length pre < length [document_example 0, document_example 1] \<and>
            (\<exists>v. np_average world_bad_generator_train (hd rest) = Inr v) \<and>
            ([document_example 0, document_example 1] ! length pre) ''label'' = None \<and> External ''CUDA'' = KeyError ''label'')"
      by (intro exI[of _ "[embedding_good]"] exI[of _ "[]"] exI[of _ "Some (External ''CUDA'')"])
         (simp add: world_bad_generator_train_def world_split_fields embedding_good_def embedding_bad_def average_good_def average_bad_def flat_example_def document_example_def document_bad_def)
    note b0 = script_raises[where w = world_bad_generator_train and e = "External ''CUDA''"
        and tr = "[loaded_example 1, loaded_example 0]" and te = "[loaded_bad 1, loaded_bad 0]"
        and train_docs = "[document_example 0, document_example 1]"
        and test_docs = "[document_bad 1, document_bad 0]" and elmo = "()"
        and train_embs = "[average_good, average_good]" and train_labels = "[PyInt 0, PyInt 1]"
        and test_embs = "[average_bad, average_bad]" and test_labels = "[PyInt 1, PyInt 0]"
        and tx = padded_example and ty = "[PyInt 0, PyInt 1]"
        and vx = padded_bad and vy = "[PyInt 1, PyInt 0]", THEN conjunct2, THEN conjunct2]
    note b1 = b0[THEN mp, OF c1]
    note b2 = b1[THEN conjunct2, THEN mp, OF c2]
    note b3 = b2[THEN conjunct2, THEN mp, OF c3]
    note b4 = b3[THEN conjunct2, THEN mp, OF c4]
    from b4[THEN conjunct1, THEN mp, OF f] show ?thesis .
  qed
  have world_no_average: "script world_no_average = Inl (External ''FloatingPointError'')"
  proof -
    have c1: "download_and_load_datasets world_no_average False =
        Inr ([loaded_example 1, loaded_example 0], [loaded_bad 1, loaded_bad 0])"
      by (rule download_split) (simp_all add: world_no_average_def)
    have s0: "random_shuffle world_no_average 0 [loaded_example 1, loaded_example 0] = [loaded_example 0, loaded_example 1]"
      and s1: "random_shuffle world_no_average 1 [loaded_bad 1, loaded_bad 0] = [loaded_bad 1, loaded_bad 0]"
      by (simp_all add: world_no_average_def world_split_fields)
    have c2: "tokenize_text world_no_average (random_shuffle world_no_average 0 [loaded_example 1, loaded_example 0]) max_tokens =
        Inr [document_example 0, document_example 1]"
      unfolding s0 by (rule tokenize_train_split) (simp add: world_no_average_def world_split_fields)
    have c3: "tokenize_text world_no_average (random_shuffle world_no_average 1 [loaded_bad 1, loaded_bad 0]) max_tokens =
        Inr [document_bad 1, document_bad 0]"
      unfolding s1 by (rule tokenize_test_split) (simp add: world_no_average_def world_split_fields)
    have c4: "ElmoEmbedder world_no_average 1 = Inr ()"
      by (simp add: world_no_average_def world_split_fields)
    have f: "\<exists>pre rest at_end.
         embed_sentences world_no_average () (map (\<lambda>d. the (d ''tokens'')) [document_example 0, document_example 1])
           = (pre @ rest, at_end) \<and>
         length pre \<le> length [document_example 0, document_example 1] \<and> length pre < 1000 \<and>
         (\<forall>j<length pre. ([document_example 0, document_example 1] ! j) ''label'' \<noteq> None) \<and>
         (\<forall>y\<in>set pre. \<exists>v. np_average world_no_average y = Inr v) \<and>
         (rest = [] \<and> at_end = Some (External ''FloatingPointError'') \<or>
          rest \<noteq> [] \<and> length pre = length [document_example 0, document_example 1] \<and> External ''FloatingPointError'' = IndexError \<or>
          rest \<noteq> [] \<and> length pre < length [document_example 0, document_example 1] \<and>
            np_average world_no_average (hd rest) = Inl (External ''FloatingPointError'') \<or>
          rest \<noteq> [] \<and> length pre < length [document_example 0, document_example 1] \<and>
            (\<exists>v. np_average world_no_average (hd rest) = Inr v) \<and>
            ([document_example 0, document_example 1] ! length pre) ''label'' = None \<and> External ''FloatingPointError'' = KeyError ''label'')"
      by (intro exI[of _ "[]"] exI[of _ "[embedding_good, embedding_good]"] exI[of _ "None"])
         (simp add: world_no_average_def world_split_fields embedding_good_def embedding_bad_def average_good_def average_bad_def flat_example_def document_example_def document_bad_def)
    note b0 = script_raises[where w = world_no_average and e = "External ''FloatingPointError''"
        and tr = "[loaded_example 1, loaded_example 0]" and te = "[loaded_bad 1, loaded_bad 0]"
        and train_docs = "[document_example 0, document_example 1]"
        and test_docs = "[document_bad 1, document_bad 0]" and elmo = "()"
        and train_embs = "[average_good, average_good]" and train_labels = "[PyInt 0, PyInt 1]"
        and test_embs = "[average_bad, average_bad]" and test_labels = "[PyInt 1, PyInt 0]"
        and tx = padded_example and ty = "[PyInt 0, PyInt 1]"
        and vx = padded_bad and vy = "[PyInt 1, PyInt 0]", THEN conjunct2, THEN conjunct2]
    note b1 = b0[THEN mp, OF c1]
    note b2 = b1[THEN conjunct2, THEN mp, OF c2]
    note b3 = b2[THEN conjunct2, THEN mp, OF c3]
    note b4 = b3[THEN conjunct2, THEN mp, OF c4]
    from b4[THEN conjunct1, THEN mp, OF f] show ?thesis .
  qed
  have world_bad_generator_test: "script world_bad_generator_test = Inl (External ''CUDA'')"
  proof -
    have c1: "download_and_load_datasets world_bad_generator_test False =
        Inr ([loaded_example 1, loaded_example 0], [loaded_bad 1, loaded_bad 0])"
      by (rule download_split) (simp_all add: world_bad_generator_test_def)
    have s0: "random_shuffle world_bad_generator_test 0 [loaded_example 1, loaded_example 0] = [loaded_example 0, loaded_example 1]"
      and s1: "random_shuffle world_bad_generator_test 1 [loaded_bad 1, loaded_bad 0] = [loaded_bad 1, loaded_bad 0]"
      by (simp_all add: world_bad_generator_test_def world_split_fields)
    have c2: "tokenize_text world_bad_generator_test (random_shuffle world_bad_generator_test 0 [loaded_example 1, loaded_example 0]) max_tokens =
        Inr [document_example 0, document_example 1]"
      unfolding s0 by (rule tokenize_train_split) (simp add: world_bad_generator_test_def world_split_fields)
    have c3: "tokenize_text world_bad_generator_test (random_shuffle world_bad_generator_test 1 [loaded_bad 1, loaded_bad 0]) max_tokens =
        Inr [document_bad 1, document_bad 0]"
      unfolding s1 by (rule tokenize_test_split) (simp add: world_bad_generator_test_def world_split_fields)
    have c4: "ElmoEmbedder world_bad_generator_test 1 = Inr ()"
      by (simp add: world_bad_generator_test_def world_split_fields)
    have c5: "create_elmo_embeddings world_bad_generator_test () [document_example 0, document_example 1] 1000 =
        Inr ([average_good, average_good], [PyInt 0, PyInt 1])"
      by (rule embeddings_train_split[where ?e0.0 = embedding_good and ?e1.0 = embedding_good])
         (simp_all add: world_bad_generator_test_def world_split_fields embedding_good_def embedding_bad_def average_good_def average_bad_def flat_example_def)
    have f: "\<exists>pre rest at_end.
         embed_sentences world_bad_generator_test () (map (\<lambda>d. the (d ''tokens'')) [document_bad 1, document_bad 0])
           = (pre @ rest, at_end) \<and>
         length pre \<le> length [document_bad 1, document_bad 0] \<and> length pre < 1000 \<and>
         (\<forall>j<length pre. ([document_bad 1, document_bad 0] ! j) ''label'' \<noteq> None) \<and>
         (\<forall>y\<in>set pre. \<exists>v. np_average world_bad_generator_test y = Inr v) \<and>
         (rest = [] \<and> at_end = Some (External ''CUDA'') \<or>
          rest \<noteq> [] \<and> length pre = length [document_bad 1, document_bad 0] \<and> External ''CUDA'' = IndexError \<or>
          rest \<noteq> [] \<and> length pre < length [document_bad 1, document_bad 0] \<and>
            np_average world_bad_generator_test (hd rest) = Inl (External ''CUDA'') \<or>
          rest \<noteq> [] \<and> length pre < length [document_bad 1, document_bad 0] \<and>
            (\<exists>v. np_average world_bad_generator_test (hd rest) = Inr v) \<and>
            ([document_bad 1, document_bad 0] ! length pre) ''label'' = None \<and> External ''CUDA'' = KeyError ''label'')"
      by (intro exI[of _ "[embedding_bad]"] exI[of _ "[]"] exI[of _ "Some (External ''CUDA'')"])
         (simp add: world_bad_generator_test_def world_split_fields embedding_good_def embedding_bad_def average_good_def average_bad_def flat_example_def document_example_def document_bad_def)
    note b0 = script_raises[where w = world_bad_generator_test and e = "External ''CUDA''"
        and tr = "[loaded_example 1, loaded_example 0]" and te = "[loaded_bad 1, loaded_bad 0]"
        and train_docs = "[document_example 0, document_example 1]"
        and test_docs = "[document_bad 1, document_bad 0]" and elmo = "()"
        and train_embs = "[average_good, average_good]" and train_labels = "[PyInt 0, PyInt 1]"
        and test_embs = "[average_bad, average_bad]" and test_labels = "[PyInt 1, PyInt 0]"
        and tx = padded_example and ty = "[PyInt 0, PyInt 1]"
        and vx = padded_bad and vy = "[PyInt 1, PyInt 0]", THEN conjunct2, THEN conjunct2]
    note b1 = b0[THEN mp, OF c1]
    note b2 = b1[THEN conjunct2, THEN mp, OF c2]
    note b3 = b2[THEN conjunct2, THEN mp, OF c3]
    note b4 = b3[THEN conjunct2, THEN mp, OF c4]
    note b5 = b4[THEN conjunct2, THEN mp, OF c5]
    from b5[THEN conjunct1, THEN mp, OF f] show ?thesis .
  qed
  have world_flat_average_train: "script world_flat_average_train = Inl (IndexError)"
  proof -
    have c1: "download_and_load_datasets world_flat_average_train False =
        Inr ([loaded_example 1, loaded_example 0], [loaded_bad 1, loaded_bad 0])"
      by (rule download_split) (simp_all add: world_flat_average_train_def)
    have s0: "random_shuffle world_flat_average_train 0 [loaded_example 1, loaded_example 0] = [loaded_example 0, loaded_example 1]"
      and s1: "random_shuffle world_flat_average_train 1 [loaded_bad 1, loaded_bad 0] = [loaded_bad 1, loaded_bad 0]"
      by (simp_all add: world_flat_average_train_def world_split_fields)
    have c2: "tokenize_text world_flat_average_train (random_shuffle world_flat_average_train 0 [loaded_example 1, loaded_example 0]) max_tokens =
        Inr [document_example 0, document_example 1]"
      unfolding s0 by (rule tokenize_train_split) (simp add: world_flat_average_train_def world_split_fields)
    have c3: "tokenize_text world_flat_average_train (random_shuffle world_flat_average_train 1 [loaded_bad 1, loaded_bad 0]) max_tokens =
        Inr [document_bad 1, document_bad 0]"
      unfolding s1 by (rule tokenize_test_split) (simp add: world_flat_average_train_def world_split_fields)
    have c4: "ElmoEmbedder world_flat_average_train 1 = Inr ()"
      by (simp add: world_flat_average_train_def world_split_fields)
    have c5: "create_elmo_embeddings world_flat_average_train () [document_example 0, document_example 1] 1000 =
        Inr ([flat_example, flat_example], [PyInt 0, PyInt 1])"
      by (rule embeddings_train_split[where ?e0.0 = embedding_good and ?e1.0 = embedding_good])
         (simp_all add: world_flat_average_train_def world_split_fields embedding_good_def embedding_bad_def average_good_def average_bad_def flat_example_def)
    have c6: "create_elmo_embeddings world_flat_average_train () [document_bad 1, document_bad 0] 1000 =
        Inr ([average_bad, average_bad], [PyInt 1, PyInt 0])"
      by (rule embeddings_test_split[where ?e0.0 = embedding_bad and ?e1.0 = embedding_bad])
         (simp_all add: world_flat_average_train_def world_split_fields embedding_good_def embedding_bad_def average_good_def average_bad_def flat_example_def)
    have f: "(\<exists>pre s post. [flat_example, flat_example] = pre @ s # post \<and>
          (\<forall>a\<in>set pre. \<exists>p. pad_sentence a = Inr p) \<and>
          (shape s = [] \<and> IndexError = IndexError \<or>
           (\<exists>n. shape s = [n] \<and> int n < max_tokens \<and> IndexError = IndexError) \<or>
           (\<exists>n c r rs. shape s = n # c # r # rs \<and> int n < max_tokens \<and>
              IndexError = ValueError))) \<or>
       (\<exists>padded. pad_x_matrix_loop [flat_example, flat_example] = Inr padded \<and>
          np_array padded = Inl (IndexError))"
      by (intro disjI1 exI[of _ "[]"] exI[of _ "flat_example"] exI[of _ "[flat_example]"])
         (simp add: flat_example_def max_tokens_def)
    note b0 = script_raises[where w = world_flat_average_train and e = "IndexError"
        and tr = "[loaded_example 1, loaded_example 0]" and te = "[loaded_bad 1, loaded_bad 0]"
        and train_docs = "[document_example 0, document_example 1]"
        and test_docs = "[document_bad 1, document_bad 0]" and elmo = "()"
        and train_embs = "[flat_example, flat_example]" and train_labels = "[PyInt 0, PyInt 1]"
        and test_embs = "[average_bad, average_bad]" and test_labels = "[PyInt 1, PyInt 0]"
        and tx = padded_example and ty = "[PyInt 0, PyInt 1]"
        and vx = padded_bad and vy = "[PyInt 1, PyInt 0]", THEN conjunct2, THEN conjunct2]
    note b1 = b0[THEN mp, OF c1]
    note b2 = b1[THEN conjunct2, THEN mp, OF c2]
    note b3 = b2[THEN conjunct2, THEN mp, OF c3]
    note b4 = b3[THEN conjunct2, THEN mp, OF c4]
    note b5 = b4[THEN conjunct2, THEN mp, OF c5]
    note b6 = b5[THEN conjunct2, THEN mp, OF c6]
    from b6[THEN conjunct1, THEN mp, OF f] show ?thesis .
  qed
  have world_ragged: "script world_ragged = Inl (ValueError)"
  proof -
    have c1: "download_and_load_datasets world_ragged False =
        Inr ([loaded_example 1, loaded_example 0], [loaded_bad 1, loaded_bad 0])"
      by (rule download_split) (simp_all add: world_ragged_def)
    have s0: "random_shuffle world_ragged 0 [loaded_example 1, loaded_example 0] = [loaded_example 0, loaded_example 1]"
      and s1: "random_shuffle world_ragged 1 [loaded_bad 1, loaded_bad 0] = [loaded_bad 1, loaded_bad 0]"
      by (simp_all add: world_ragged_def world_split_fields)
    have c2: "tokenize_text world_ragged (random_shuffle world_ragged 0 [loaded_example 1, loaded_example 0]) max_tokens =
        Inr [document_example 0, document_example 1]"
      unfolding s0 by (rule tokenize_train_split) (simp add: world_ragged_def world_split_fields)
    have c3: "tokenize_text world_ragged (random_shuffle world_ragged 1 [loaded_bad 1, loaded_bad 0]) max_tokens =
        Inr [document_bad 1, document_bad 0]"
      unfolding s1 by (rule tokenize_test_split) (simp add: world_ragged_def world_split_fields)
    have c4: "ElmoEmbedder world_ragged 1 = Inr ()"
      by (simp add: world_ragged_def world_split_fields)
    have c5: "create_elmo_embeddings world_ragged () [document_example 0, document_example 1] 1000 =
        Inr ([average_good, average_bad], [PyInt 0, PyInt 1])"
      by (rule embeddings_train_split[where ?e0.0 = embedding_good and ?e1.0 = embedding_bad])
         (simp_all add: world_ragged_def world_split_fields embedding_good_def embedding_bad_def average_good_def average_bad_def flat_example_def)
    have c6: "create_elmo_embeddings world_ragged () [document_bad 1, document_bad 0] 1000 =
        Inr ([average_bad, average_bad], [PyInt 1, PyInt 0])"
      by (rule embeddings_test_split[where ?e0.0 = embedding_bad and ?e1.0 = embedding_bad])
         (simp_all add: world_ragged_def world_split_fields embedding_good_def embedding_bad_def average_good_def average_bad_def flat_example_def)
    have f: "(\<exists>pre s post. [average_good, average_bad] = pre @ s # post \<and>
          (\<forall>a\<in>set pre. \<exists>p. pad_sentence a = Inr p) \<and>
          (shape s = [] \<and> ValueError = IndexError \<or>
           (\<exists>n. shape s = [n] \<and> int n < max_tokens \<and> ValueError = IndexError) \<or>
           (\<exists>n c r rs. shape s = n # c # r # rs \<and> int n < max_tokens \<and>
              ValueError = ValueError))) \<or>
       (\<exists>padded. pad_x_matrix_loop [average_good, average_bad] = Inr padded \<and>
          np_array padded = Inl (ValueError))"
      by (intro disjI2 exI[of _ "[\<lparr>shape = [100, 2], entries = [1, 2, 3, 4] @ replicate 196 0\<rparr>,
            \<lparr>shape = [100, 3], entries = [1, 2, 3, 4, 5, 6] @ replicate 294 0\<rparr>]"])
         (simp add: pad_sentence_def shape_at_def np_append_def np_zeros_def np_array_def
            bind_Inr max_tokens_def average_good_def average_bad_def)
    note b0 = script_raises[where w = world_ragged and e = "ValueError"
        and tr = "[loaded_example 1, loaded_example 0]" and te = "[loaded_bad 1, loaded_bad 0]"
        and train_docs = "[document_example 0, document_example 1]"
        and test_docs = "[document_bad 1, document_bad 0]" and elmo = "()"
        and train_embs = "[average_good, average_bad]" and train_labels = "[PyInt 0, PyInt 1]"
        and test_embs = "[average_bad, average_bad]" and test_labels = "[PyInt 1, PyInt 0]"
        and tx = padded_example and ty = "[PyInt 0, PyInt 1]"
        and vx = padded_bad and vy = "[PyInt 1, PyInt 0]", THEN conjunct2, THEN conjunct2]
    note b1 = b0[THEN mp, OF c1]
    note b2 = b1[THEN conjunct2, THEN mp, OF c2]
    note b3 = b2[THEN conjunct2, THEN mp, OF c3]
    note b4 = b3[THEN conjunct2, THEN mp, OF c4]
    note b5 = b4[THEN conjunct2, THEN mp, OF c5]
    note b6 = b5[THEN conjunct2, THEN mp, OF c6]
    from b6[THEN conjunct1, THEN mp, OF f] show ?thesis .
  qed
  have world_no_labels_train: "script world_no_labels_train = Inl (External ''MemoryError'')"
  proof -
    have c1: "download_and_load_datasets world_no_labels_train False =
        Inr ([loaded_example 1, loaded_example 0], [loaded_bad 1, loaded_bad 0])"
      by (rule download_split) (simp_all add: world_no_labels_train_def)
    have s0: "random_shuffle world_no_labels_train 0 [loaded_example 1, loaded_example 0] = [loaded_example 0, loaded_example 1]"
      and s1: "random_shuffle world_no_labels_train 1 [loaded_bad 1, loaded_bad 0] = [loaded_bad 1, loaded_bad 0]"
      by (simp_all add: world_no_labels_train_def world_split_fields)
    have c2: "tokenize_text world_no_labels_train (random_shuffle world_no_labels_train 0 [loaded_example 1, loaded_example 0]) max_tokens =
        Inr [document_example 0, document_example 1]"
      unfolding s0 by (rule tokenize_train_split) (simp add: world_no_labels_train_def world_split_fields)
    have c3: "tokenize_text world_no_labels_train (random_shuffle world_no_labels_train 1 [loaded_bad 1, loaded_bad 0]) max_tokens =
        Inr [document_bad 1, document_bad 0]"
      unfolding s1 by (rule tokenize_test_split) (simp add: world_no_labels_train_def world_split_fields)
    have c4: "ElmoEmbedder world_no_labels_train 1 = Inr ()"
      by (simp add: world_no_labels_train_def world_split_fields)
    have c5: "create_elmo_embeddings world_no_labels_train () [document_example 0, document_example 1] 1000 =
        Inr ([average_good, average_good], [PyInt 0, PyInt 1])"
      by (rule embeddings_train_split[where ?e0.0 = embedding_good and ?e1.0 = embedding_good])
         (simp_all add: world_no_labels_train_def world_split_fields embedding_good_def embedding_bad_def average_good_def average_bad_def flat_example_def)
    have c6: "create_elmo_embeddings world_no_labels_train () [document_bad 1, document_bad 0] 1000 =
        Inr ([average_bad, average_bad], [PyInt 1, PyInt 0])"
      by (rule embeddings_test_split[where ?e0.0 = embedding_bad and ?e1.0 = embedding_bad])
         (simp_all add: world_no_labels_train_def world_split_fields embedding_good_def embedding_bad_def average_good_def average_bad_def flat_example_def)
    have c7: "pad_x_matrix [average_good, average_good] = Inr padded_example"
      by (rule pad_train_split)
    have f: "np_array_labels world_no_labels_train [PyInt 0, PyInt 1] = Inl (External ''MemoryError'')"
      by (simp add: world_no_labels_train_def)
    note b0 = script_raises[where w = world_no_labels_train and e = "External ''MemoryError''"
        and tr = "[loaded_example 1, loaded_example 0]" and te = "[loaded_bad 1, loaded_bad 0]"
        and train_docs = "[document_example 0, document_example 1]"
        and test_docs = "[document_bad 1, document_bad 0]" and elmo = "()"
        and train_embs = "[average_good, average_good]" and train_labels = "[PyInt 0, PyInt 1]"
        and test_embs = "[average_bad, average_bad]" and test_labels = "[PyInt 1, PyInt 0]"
        and tx = padded_example and ty = "[PyInt 0, PyInt 1]"
        and vx = padded_bad and vy = "[PyInt 1, PyInt 0]", THEN conjunct2, THEN conjunct2]
    note b1 = b0[THEN mp, OF c1]
    note b2 = b1[THEN conjunct2, THEN mp, OF c2]
    note b3 = b2[THEN conjunct2, THEN mp, OF c3]
    note b4 = b3[THEN conjunct2, THEN mp, OF c4]
    note b5 = b4[THEN conjunct2, THEN mp, OF c5]
    note b6 = b5[THEN conjunct2, THEN mp, OF c6]
    note b7 = b6[THEN conjunct2, THEN mp, OF c7]
    from b7[THEN conjunct1, THEN mp, OF f] show ?thesis .
  qed
  have world_flat_average_test: "script world_flat_average_test = Inl (IndexError)"
  proof -
    have c1: "download_and_load_datasets world_flat_average_test False =
        Inr ([loaded_example 1, loaded_example 0], [loaded_bad 1, loaded_bad 0])"
      by (rule download_split) (simp_all add: world_flat_average_test_def)
    have s0: "random_shuffle world_flat_average_test 0 [loaded_example 1, loaded_example 0] = [loaded_example 0, loaded_example 1]"
      and s1: "random_shuffle world_flat_average_test 1 [loaded_bad 1, loaded_bad 0] = [loaded_bad 1, loaded_bad 0]"
      by (simp_all add: world_flat_average_test_def world_split_fields)
    have c2: "tokenize_text world_flat_average_test (random_shuffle world_flat_average_test 0 [loaded_example 1, loaded_example 0]) max_tokens =
        Inr [document_example 0, document_example 1]"
      unfolding s0 by (rule tokenize_train_split) (simp add: world_flat_average_test_def world_split_fields)
    have c3: "tokenize_text world_flat_average_test (random_shuffle world_flat_average_test 1 [loaded_bad 1, loaded_bad 0]) max_tokens =
        Inr [document_bad 1, document_bad 0]"
      unfolding s1 by (rule tokenize_test_split) (simp add: world_flat_average_test_def world_split_fields)
    have c4: "ElmoEmbedder world_flat_average_test 1 = Inr ()"
      by (simp add: world_flat_average_test_def world_split_fields)
    have c5: "create_elmo_embeddings world_flat_average_test () [document_example 0, document_example 1] 1000 =
        Inr ([average_good, average_good], [PyInt 0, PyInt 1])"
      by (rule embeddings_train_split[where ?e0.0 = embedding_good and ?e1.0 = embedding_good])
         (simp_all add: world_flat_average_test_def world_split_fields embedding_good_def embedding_bad_def average_good_def average_bad_def flat_example_def)
    have c6: "create_elmo_embeddings world_flat_average_test () [document_bad 1, document_bad 0] 1000 =
        Inr ([flat_example, flat_example], [PyInt 1, PyInt 0])"
      by (rule embeddings_test_split[where ?e0.0 = embedding_bad and ?e1.0 = embedding_bad])
         (simp_all add: world_flat_average_test_def world_split_fields embedding_good_def embedding_bad_def average_good_def average_bad_def flat_example_def)
    have c7: "pad_x_matrix [average_good, average_good] = Inr padded_example"
      by (rule pad_train_split)
    have c8: "np_array_labels world_flat_average_test [PyInt 0, PyInt 1] = Inr [PyInt 0, PyInt 1]"
      by (simp add: world_flat_average_test_def world_split_fields)
    have f: "(\<exists>pre s post. [flat_example, flat_example] = pre @ s # post \<and>
          (\<forall>a\<in>set pre. \<exists>p. pad_sentence a = Inr p) \<and>
          (shape s = [] \<and> IndexError = IndexError \<or>
           (\<exists>n. shape s = [n] \<and> int n < max_tokens \<and> IndexError = IndexError) \<or>
           (\<exists>n c r rs. shape s = n # c # r # rs \<and> int n < max_tokens \<and>
              IndexError = ValueError))) \<or>
       (\<exists>padded. pad_x_matrix_loop [flat_example, flat_example] = Inr padded \<and>
          np_array padded = Inl (IndexError))"
      by (intro disjI1 exI[of _ "[]"] exI[of _ "flat_example"] exI[of _ "[flat_example]"])
         (simp add: flat_example_def max_tokens_def)
    note b0 = script_raises[where w = world_flat_average_test and e = "IndexError"
        and tr = "[loaded_example 1, loaded_example 0]" and te = "[loaded_bad 1, loaded_bad 0]"
        and train_docs = "[document_example 0, document_example 1]"
        and test_docs = "[document_bad 1, document_bad 0]" and elmo = "()"
        and train_embs = "[average_good, average_good]" and train_labels = "[PyInt 0, PyInt 1]"
        and test_embs = "[flat_example, flat_example]" and test_labels = "[PyInt 1, PyInt 0]"
        and tx = padded_example and ty = "[PyInt 0, PyInt 1]"
        and vx = padded_bad and vy = "[PyInt 1, PyInt 0]", THEN conjunct2, THEN conjunct2]
    note b1 = b0[THEN mp, OF c1]
    note b2 = b1[THEN conjunct2, THEN mp, OF c2]
    note b3 = b2[THEN conjunct2, THEN mp, OF c3]
    note b4 = b3[THEN conjunct2, THEN mp, OF c4]
    note b5 = b4[THEN conjunct2, THEN mp, OF c5]
    note b6 = b5[THEN conjunct2, THEN mp, OF c6]
    note b7 = b6[THEN conjunct2, THEN mp, OF c7]
    note b8 = b7[THEN conjunct2, THEN mp, OF c8]
    from b8[THEN conjunct1, THEN mp, OF f] show ?thesis .
  qed
  have world_no_labels_test: "script world_no_labels_test = Inl (External ''MemoryError'')"
  proof -
    have c1: "download_and_load_datasets world_no_labels_test False =
        Inr ([loaded_example 1, loaded_example 0], [loaded_bad 1, loaded_bad 0])"
      by (rule download_split) (simp_all add: world_no_labels_test_def)
    have s0: "random_shuffle world_no_labels_test 0 [loaded_example 1, loaded_example 0] = [loaded_example 0, loaded_example 1]"
      and s1: "random_shuffle world_no_labels_test 1 [loaded_bad 1, loaded_bad 0] = [loaded_bad 1, loaded_bad 0]"
      by (simp_all add: world_no_labels_test_def world_split_fields)
    have c2: "tokenize_text world_no_labels_test (random_shuffle world_no_labels_test 0 [loaded_example 1, loaded_example 0]) max_tokens =
        Inr [document_example 0, document_example 1]"
      unfolding s0 by (rule tokenize_train_split) (simp add: world_no_labels_test_def world_split_fields)
    have c3: "tokenize_text world_no_labels_test (random_shuffle world_no_labels_test 1 [loaded_bad 1, loaded_bad 0]) max_tokens =
        Inr [document_bad 1, document_bad 0]"
      unfolding s1 by (rule tokenize_test_split) (simp add: world_no_labels_test_def world_split_fields)
    have c4: "ElmoEmbedder world_no_labels_test 1 = Inr ()"
      by (simp add: world_no_labels_test_def world_split_fields)
    have c5: "create_elmo_embeddings world_no_labels_test () [document_example 0, document_example 1] 1000 =
        Inr ([average_good, average_good], [PyInt 0, PyInt 1])"
      by (rule embeddings_train_split[where ?e0.0 = embedding_good and ?e1.0 = embedding_good])
         (simp_all add: world_no_labels_test_def world_split_fields embedding_good_def embedding_bad_def average_good_def average_bad_def flat_example_def)
    have c6: "create_elmo_embeddings world_no_labels_test () [document_bad 1, document_bad 0] 1000 =
        Inr ([average_bad, average_bad], [PyInt 1, PyInt 0])"
      by (rule embeddings_test_split[where ?e0.0 = embedding_bad and ?e1.0 = embedding_bad])
         (simp_all add: world_no_labels_test_def world_split_fields embedding_good_def embedding_bad_def average_good_def average_bad_def flat_example_def)
    have c7: "pad_x_matrix [average_good, average_good] = Inr padded_example"
      by (rule pad_train_split)
    have c8: "np_array_labels world_no_labels_test [PyInt 0, PyInt 1] = Inr [PyInt 0, PyInt 1]"
      by (simp add: world_no_labels_test_def world_split_fields)
    have c9: "pad_x_matrix [average_bad, average_bad] = Inr padded_bad"
      by (rule pad_test_split)
    have f: "np_array_labels world_no_labels_test [PyInt 1, PyInt 0] = Inl (External ''MemoryError'')"
      by (simp add: world_no_labels_test_def)
    note b0 = script_raises[where w = world_no_labels_test and e = "External ''MemoryError''"
        and tr = "[loaded_example 1, loaded_example 0]" and te = "[loaded_bad 1, loaded_bad 0]"
        and train_docs = "[document_example 0, document_example 1]"
        and test_docs = "[document_bad 1, document_bad 0]" and elmo = "()"
        and train_embs = "[average_good, average_good]" and train_labels = "[PyInt 0, PyInt 1]"
        and test_embs = "[average_bad, average_bad]" and test_labels = "[PyInt 1, PyInt 0]"
        and tx = padded_example and ty = "[PyInt 0, PyInt 1]"
        and vx = padded_bad and vy = "[PyInt 1, PyInt 0]", THEN conjunct2, THEN conjunct2]
    note b1 = b0[THEN mp, OF c1]
    note b2 = b1[THEN conjunct2, THEN mp, OF c2]
    note b3 = b2[THEN conjunct2, THEN mp, OF c3]
    note b4 = b3[THEN conjunct2, THEN mp, OF c4]
    note b5 = b4[THEN conjunct2, THEN mp, OF c5]
    note b6 = b5[THEN conjunct2, THEN mp, OF c6]
    note b7 = b6[THEN conjunct2, THEN mp, OF c7]
    note b8 = b7[THEN conjunct2, THEN mp, OF c8]
    note b9 = b8[THEN conjunct2, THEN mp, OF c9]
    from b9[THEN conjunct1, THEN mp, OF f] show ?thesis .
  qed
  have world_no_training: "script world_no_training = Inl (External ''ResourceExhaustedError'')"
  proof -
    have c1: "download_and_load_datasets world_no_training False =
        Inr ([loaded_example 1, loaded_example 0], [loaded_bad 1, loaded_bad 0])"
      by (rule download_split) (simp_all add: world_no_training_def)
    have s0: "random_shuffle world_no_training 0 [loaded_example 1, loaded_example 0] = [loaded_example 0, loaded_example 1]"
      and s1: "random_shuffle world_no_training 1 [loaded_bad 1, loaded_bad 0] = [loaded_bad 1, loaded_bad 0]"
      by (simp_all add: world_no_training_def world_split_fields)
    have c2: "tokenize_text world_no_training (random_shuffle world_no_training 0 [loaded_example 1, loaded_example 0]) max_tokens =
        Inr [document_example 0, document_example 1]"
      unfolding s0 by (rule tokenize_train_split) (simp add: world_no_training_def world_split_fields)
    have c3: "tokenize_text world_no_training (random_shuffle world_no_training 1 [loaded_bad 1, loaded_bad 0]) max_tokens =
        Inr [document_bad 1, document_bad 0]"
      unfolding s1 by (rule tokenize_test_split) (simp add: world_no_training_def world_split_fields)
    have c4: "ElmoEmbedder world_no_training 1 = Inr ()"
      by (simp add: world_no_training_def world_split_fields)
    have c5: "create_elmo_embeddings world_no_training () [document_example 0, document_example 1] 1000 =
        Inr ([average_good, average_good], [PyInt 0, PyInt 1])"
      by (rule embeddings_train_split[where ?e0.0 = embedding_good and ?e1.0 = embedding_good])
         (simp_all add: world_no_training_def world_split_fields embedding_good_def embedding_bad_def average_good_def average_bad_def flat_example_def)
    have c6: "create_elmo_embeddings world_no_training () [document_bad 1, document_bad 0] 1000 =
        Inr ([average_bad, average_bad], [PyInt 1, PyInt 0])"
      by (rule embeddings_test_split[where ?e0.0 = embedding_bad and ?e1.0 = embedding_bad])
         (simp_all add: world_no_training_def world_split_fields embedding_good_def embedding_bad_def average_good_def average_bad_def flat_example_def)
    have c7: "pad_x_matrix [average_good, average_good] = Inr padded_example"
      by (rule pad_train_split)
    have c8: "np_array_labels world_no_training [PyInt 0, PyInt 1] = Inr [PyInt 0, PyInt 1]"
      by (simp add: world_no_training_def world_split_fields)
    have c9: "pad_x_matrix [average_bad, average_bad] = Inr padded_bad"
      by (rule pad_test_split)
    have c10: "np_array_labels world_no_training [PyInt 1, PyInt 0] = Inr [PyInt 1, PyInt 0]"
      by (simp add: world_no_training_def world_split_fields)
    have f: "\<exists>n<10.
        (\<forall>j<n. \<exists>l. train_epoch world_no_training
            \<lparr>fit_model = model, fit_x = padded_example, fit_y = [PyInt 0, PyInt 1],
             validation_data = (padded_bad, [PyInt 1, PyInt 0]), epochs = 10, batch_size = 32\<rparr> j
              = Inr l) \<and>
         train_epoch world_no_training
            \<lparr>fit_model = model, fit_x = padded_example, fit_y = [PyInt 0, PyInt 1],
             validation_data = (padded_bad, [PyInt 1, PyInt 0]), epochs = 10, batch_size = 32\<rparr> n
              = Inl (External ''ResourceExhaustedError'')"
      by (intro exI[of _ 3]) (simp add: world_no_training_def)
    note b0 = script_raises[where w = world_no_training and e = "External ''ResourceExhaustedError''"
        and tr = "[loaded_example 1, loaded_example 0]" and te = "[loaded_bad 1, loaded_bad 0]"
        and train_docs = "[document_example 0, document_example 1]"
        and test_docs = "[document_bad 1, document_bad 0]" and elmo = "()"
        and train_embs = "[average_good, average_good]" and train_labels = "[PyInt 0, PyInt 1]"
        and test_embs = "[average_bad, average_bad]" and test_labels = "[PyInt 1, PyInt 0]"
        and tx = padded_example and ty = "[PyInt 0, PyInt 1]"
        and vx = padded_bad and vy = "[PyInt 1, PyInt 0]", THEN conjunct2, THEN conjunct2]
    note b1 = b0[THEN mp, OF c1]
    note b2 = b1[THEN conjunct2, THEN mp, OF c2]
    note b3 = b2[THEN conjunct2, THEN mp, OF c3]
    note b4 = b3[THEN conjunct2, THEN mp, OF c4]
    note b5 = b4[THEN conjunct2, THEN mp, OF c5]
    note b6 = b5[THEN conjunct2, THEN mp, OF c6]
    note b7 = b6[THEN conjunct2, THEN mp, OF c7]
    note b8 = b7[THEN conjunct2, THEN mp, OF c8]
    note b9 = b8[THEN conjunct2, THEN mp, OF c9]
    note b10 = b9[THEN conjunct2, THEN mp, OF c10]
    from b10[THEN mp, OF f] show ?thesis .
  qed
  from world_no_download world_no_listing world_bad_file world_no_tokenizer_train world_no_tokenizer_test world_no_embedder world_bad_generator_train world_no_average world_bad_generator_test world_flat_average_train world_ragged world_no_labels_train world_flat_average_test world_no_labels_test world_no_training
  show ?thesis by blast
qed

section \<open>Documents without tokens\<close>







end
